theory Spec2Isabelle
  imports Main "HOL-Library.Sublist"
begin

section \<open>Conventions\<close>

text \<open>
  The development embeds \<^verbatim>\<open>src/index.ts\<close>: the two Durable Objects
  (\<^verbatim>\<open>ChatSessions\<close>, \<^verbatim>\<open>ChatHistory\<close>), the enrichment helpers, and the two
  functions that run a turn (\<^verbatim>\<open>coordinateChat\<close>, \<^verbatim>\<open>handleChat\<close>).

  \<^item> A JavaScript string is a \<open>string\<close>; its characters stand for the code units below 256.
  \<^item> An optional value (\<^verbatim>\<open>undefined\<close> when absent) is an \<open>option\<close>.
  \<^item> A thrown value is an \<open>exn\<close>; a call that may reject returns \<open>exn + 'a\<close>.
  \<^item> Everything the code reads from outside (clock, random numbers, storage availability,
    remote services) is an explicit argument; a remote service answers as a function of
    the request it gets.
  \<^item> A request body is the parsed JSON; a body that does not parse is outside the model.
  \<^item> Logging, the HTTP routing of the worker, the HTML page and \<^verbatim>\<open>searchChatHistory\<close>
    (which no turn calls) are left out.
\<close>

datatype exn = Error string | NonError

text \<open>\<^verbatim>\<open>error instanceof Error ? error.message : fallback\<close>\<close>

fun message_or :: "string \<Rightarrow> exn \<Rightarrow> string" where
  "message_or fallback (Error m) = m"
| "message_or fallback NonError = fallback"

text \<open>Truthiness of an optional string: \<^verbatim>\<open>undefined\<close> and \<^verbatim>\<open>''\<close> are falsy.\<close>

fun truthy :: "string option \<Rightarrow> bool" where
  "truthy None = False"
| "truthy (Some s) = (s \<noteq> [])"

text \<open>\<^verbatim>\<open>a || b\<close> on an optional string.\<close>

fun or_else :: "string option \<Rightarrow> string \<Rightarrow> string" where
  "or_else None d = d"
| "or_else (Some s) d = (if s = [] then d else s)"

text \<open>\<^verbatim>\<open>xs.slice(-k)\<close>: the last \<open>k\<close> elements, all of them when there are fewer.\<close>

definition slice_last :: "nat \<Rightarrow> 'a list \<Rightarrow> 'a list" where
  "slice_last k xs = drop (length xs - k) xs"

text \<open>\<^verbatim>\<open>xs.findIndex(p)\<close>, with \<open>None\<close> for \<open>-1\<close>.\<close>

fun findIndex :: "('a \<Rightarrow> bool) \<Rightarrow> 'a list \<Rightarrow> nat option" where
  "findIndex p [] = None"
| "findIndex p (x # xs) =
     (if p x then Some 0 else map_option Suc (findIndex p xs))"

subsection \<open>What a Durable Object reads from outside during one request\<close>

datatype storage_op = Get string | Put string | Delete string

text \<open>
  \<open>io\<close> says which storage operations of the request reject (and with what);
  \<open>clock k\<close> is the \<open>k\<close>-th reading of \<^verbatim>\<open>Date.now()\<close> during the request;
  \<open>random\<close> is the text of \<^verbatim>\<open>Math.random().toString(36).substr(2, 9)\<close>.
\<close>

record ambient =
  io :: "storage_op \<Rightarrow> exn option"
  clock :: "nat \<Rightarrow> nat"
  random :: string

section \<open>ChatSessions: the session directory\<close>

record session =
  session_id :: string
  name :: string
  lastMessage :: "string option"
  createdAt :: nat
  updatedAt :: nat

text \<open>
  The object's state: the in-memory array \<^verbatim>\<open>this.sessions\<close> and the value stored under
  the key \<^verbatim>\<open>'sessions'\<close> (\<open>None\<close> when the key was never written).
\<close>

record chat_sessions =
  sessions :: "session list"
  sessions_stored :: "session list option"

text \<open>The JSON body of a request to the object; every field may be missing.\<close>

record sessions_body =
  body_id :: "string option"
  body_name :: "string option"
  body_lastMessage :: "string option"

text \<open>Method and path of a request, already matched against the routes of \<^verbatim>\<open>fetch\<close>.\<close>

datatype sessions_request =
    GET_sessions
  | POST_sessions sessions_body
  | PUT_sessions sessions_body
  | DELETE_sessions sessions_body
  | Other_sessions

datatype sessions_response =
    Sessions_json "session list"
  | Session_json session
  | Session_not_found
  | Success_json
  | Not_Found

text \<open>
  Lines 26-29: the array is read from storage when it is empty in memory.
\<close>

definition load_sessions :: "ambient \<Rightarrow> chat_sessions \<Rightarrow> exn + chat_sessions" where
  "load_sessions amb st =
     (if sessions st = [] then
        (case io amb (Get ''sessions'') of
           Some e \<Rightarrow> Inl e
         | None \<Rightarrow>
             (case sessions_stored st of
                Some stored \<Rightarrow> Inr (st\<lparr>sessions := stored\<rparr>)
              | None \<Rightarrow> Inr st))
      else Inr st)"

text \<open>\<^verbatim>\<open>await this.state.storage.put('sessions', this.sessions)\<close>, then the response.\<close>

definition put_sessions ::
  "ambient \<Rightarrow> chat_sessions \<Rightarrow> sessions_response \<Rightarrow> chat_sessions \<times> (exn + sessions_response)" where
  "put_sessions amb st resp =
     (case io amb (Put ''sessions'') of
        Some e \<Rightarrow> (st, Inl e)
      | None \<Rightarrow> (st\<lparr>sessions_stored := Some (sessions st)\<rparr>, Inr resp))"

text \<open>Line 50: \<^verbatim>\<open>body.id || 'session-' + Math.random().toString(36).substr(2, 9)\<close>.\<close>

definition new_session_id :: "ambient \<Rightarrow> sessions_body \<Rightarrow> string" where
  "new_session_id amb b = or_else (body_id b) (''session-'' @ random amb)"

definition newSession :: "ambient \<Rightarrow> sessions_body \<Rightarrow> session" where
  "newSession amb b =
     \<lparr> session_id = new_session_id amb b,
       name = or_else (body_name b) ''New Chat'',
       lastMessage = Some [],
       createdAt = clock amb 0,
       updatedAt = clock amb 1 \<rparr>"

text \<open>Lines 68-70: the three assignments to \<^verbatim>\<open>this.sessions[sessionIndex]\<close>.\<close>

definition apply_update :: "ambient \<Rightarrow> sessions_body \<Rightarrow> session \<Rightarrow> session" where
  "apply_update amb b s =
     (let s1 = (case body_name b of
                  Some n \<Rightarrow> (if n \<noteq> [] then s\<lparr>name := n\<rparr> else s)
                | None \<Rightarrow> s);
          s2 = (case body_lastMessage b of
                  Some m \<Rightarrow> s1\<lparr>lastMessage := Some m\<rparr>
                | None \<Rightarrow> s1)
      in s2\<lparr>updatedAt := clock amb 0\<rparr>)"

fun sessions_route ::
  "ambient \<Rightarrow> sessions_request \<Rightarrow> chat_sessions \<Rightarrow> chat_sessions \<times> (exn + sessions_response)" where
  "sessions_route amb GET_sessions st = (st, Inr (Sessions_json (sessions st)))"
| "sessions_route amb (POST_sessions b) st =
     (let st1 = st\<lparr>sessions := newSession amb b # sessions st\<rparr>
      in put_sessions amb st1 (Session_json (newSession amb b)))"
| "sessions_route amb (PUT_sessions b) st =
     (case findIndex (\<lambda>s. Some (session_id s) = body_id b) (sessions st) of
        Some i \<Rightarrow>
          (let st1 = st\<lparr>sessions := (sessions st)[i := apply_update amb b (sessions st ! i)]\<rparr>
           in put_sessions amb st1 (Session_json (sessions st1 ! i)))
      | None \<Rightarrow> (st, Inr Session_not_found))"
| "sessions_route amb (DELETE_sessions b) st =
     (let st1 = st\<lparr>sessions := filter (\<lambda>s. Some (session_id s) \<noteq> body_id b) (sessions st)\<rparr>
      in put_sessions amb st1 Success_json)"
| "sessions_route amb Other_sessions st = (st, Inr Not_Found)"

text \<open>\<^verbatim>\<open>ChatSessions.fetch\<close> (lines 25-94).\<close>

definition ChatSessions_fetch ::
  "ambient \<Rightarrow> sessions_request \<Rightarrow> chat_sessions \<Rightarrow> chat_sessions \<times> (exn + sessions_response)" where
  "ChatSessions_fetch amb req st =
     (case load_sessions amb st of
        Inl e \<Rightarrow> (st, Inl e)
      | Inr st1 \<Rightarrow> sessions_route amb req st1)"

text \<open>The state of a freshly constructed object over empty storage.\<close>

definition new_ChatSessions :: chat_sessions where
  "new_ChatSessions = \<lparr> sessions = [], sessions_stored = None \<rparr>"

text \<open>
  What \<^verbatim>\<open>GET /sessions\<close> shows when storage answers: the array after loading.
\<close>

definition summaries :: "chat_sessions \<Rightarrow> session list" where
  "summaries st =
     (if sessions st = [] then
        (case sessions_stored st of Some stored \<Rightarrow> stored | None \<Rightarrow> [])
      else sessions st)"

text \<open>Requests served one after the other, each with its own ambient readings.\<close>

fun serve_sessions :: "(ambient \<times> sessions_request) list \<Rightarrow> chat_sessions \<Rightarrow> chat_sessions" where
  "serve_sessions [] st = st"
| "serve_sessions ((amb, req) # rest) st =
     serve_sessions rest (fst (ChatSessions_fetch amb req st))"

text \<open>Storage that accepts every operation.\<close>

definition storage_up :: "ambient \<Rightarrow> bool" where
  "storage_up amb = (io amb (Get ''sessions'') = None \<and> io amb (Put ''sessions'') = None)"

section \<open>ChatHistory: the message log of one session\<close>

record message =
  role :: string
  content :: string
  timestamp :: nat

datatype jvalue = JText string | JNumber nat

record chat_history =
  messages :: "message list"
  userContext :: "string \<rightharpoonup> jvalue"
  messages_stored :: "message list option"
  userContext_stored :: "(string \<rightharpoonup> jvalue) option"

datatype history_request =
    GET_messages
  | POST_messages string string
  | DELETE_messages
  | POST_context "string \<rightharpoonup> jvalue"
  | GET_context
  | Other_history

datatype history_response =
    Messages_json "message list" "string \<rightharpoonup> jvalue"
  | Success_true
  | Context_json "string \<rightharpoonup> jvalue"
  | Not_Found_history

text \<open>Lines 113-118: both keys are read when the array is empty in memory.\<close>

definition load_history :: "ambient \<Rightarrow> chat_history \<Rightarrow> exn + chat_history" where
  "load_history amb h =
     (if messages h = [] then
        (case io amb (Get ''messages'') of
           Some e \<Rightarrow> Inl e
         | None \<Rightarrow>
             (case io amb (Get ''userContext'') of
                Some e \<Rightarrow> Inl e
              | None \<Rightarrow>
                  (let h1 = (case messages_stored h of
                               Some stored \<Rightarrow> h\<lparr>messages := stored\<rparr>
                             | None \<Rightarrow> h)
                   in Inr (case userContext_stored h of
                             Some c \<Rightarrow> h1\<lparr>userContext := c\<rparr>
                           | None \<Rightarrow> h1))))
      else Inr h)"

text \<open>Lines 129-137: push, then keep the last 50.\<close>

definition push_message :: "ambient \<Rightarrow> string \<Rightarrow> string \<Rightarrow> message list \<Rightarrow> message list" where
  "push_message amb r c ms =
     (let pushed = ms @ [\<lparr> role = r, content = c, timestamp = clock amb 0 \<rparr>]
      in if length pushed > 50 then slice_last 50 pushed else pushed)"

fun history_route ::
  "ambient \<Rightarrow> history_request \<Rightarrow> chat_history \<Rightarrow> chat_history \<times> (exn + history_response)" where
  "history_route amb GET_messages h = (h, Inr (Messages_json (messages h) (userContext h)))"
| "history_route amb (POST_messages r c) h =
     (let h1 = h\<lparr>messages := push_message amb r c (messages h)\<rparr>
      in case io amb (Put ''messages'') of
           Some e \<Rightarrow> (h1, Inl e)
         | None \<Rightarrow> (h1\<lparr>messages_stored := Some (messages h1)\<rparr>, Inr Success_true))"
| "history_route amb DELETE_messages h =
     (let h1 = h\<lparr>messages := []\<rparr>
      in case io amb (Delete ''messages'') of
           Some e \<Rightarrow> (h1, Inl e)
         | None \<Rightarrow> (h1\<lparr>messages_stored := None\<rparr>, Inr Success_true))"
| "history_route amb (POST_context b) h =
     (let h1 = h\<lparr>userContext := (userContext h ++ b)(''lastActivity'' \<mapsto> JNumber (clock amb 0))\<rparr>
      in case io amb (Put ''userContext'') of
           Some e \<Rightarrow> (h1, Inl e)
         | None \<Rightarrow> (h1\<lparr>userContext_stored := Some (userContext h1)\<rparr>, Inr Success_true))"
| "history_route amb GET_context h = (h, Inr (Context_json (userContext h)))"
| "history_route amb Other_history h = (h, Inr Not_Found_history)"

text \<open>\<^verbatim>\<open>ChatHistory.fetch\<close> (lines 112-165).\<close>

definition ChatHistory_fetch ::
  "ambient \<Rightarrow> history_request \<Rightarrow> chat_history \<Rightarrow> chat_history \<times> (exn + history_response)" where
  "ChatHistory_fetch amb req h =
     (case load_history amb h of
        Inl e \<Rightarrow> (h, Inl e)
      | Inr h1 \<Rightarrow> history_route amb req h1)"

definition new_ChatHistory :: chat_history where
  "new_ChatHistory =
     \<lparr> messages = [], userContext = Map.empty,
       messages_stored = None, userContext_stored = None \<rparr>"

text \<open>What \<^verbatim>\<open>GET /messages\<close> shows when storage answers.\<close>

definition history_of :: "chat_history \<Rightarrow> message list" where
  "history_of h =
     (if messages h = [] then
        (case messages_stored h of Some stored \<Rightarrow> stored | None \<Rightarrow> [])
      else messages h)"



definition history_storage_up :: "ambient \<Rightarrow> bool" where
  "history_storage_up amb =
     (io amb (Get ''messages'') = None \<and> io amb (Get ''userContext'') = None \<and>
      io amb (Put ''messages'') = None)"

section \<open>Strings\<close>

text \<open>
  \<^verbatim>\<open>String.prototype.toLowerCase\<close> on code units below 256: the letters
  \<^verbatim>\<open>A-Z\<close> (65-90) and the Latin-1 capitals (192-222 without the multiplication sign 215)
  move up by 32, which sets bit 5 of the code unit; nothing else changes.
\<close>

definition toLowerCase_char :: "char \<Rightarrow> char" where
  "toLowerCase_char c =
     (let n = (of_char c :: nat)
      in if (65 \<le> n \<and> n \<le> 90) \<or> (192 \<le> n \<and> n \<le> 222 \<and> n \<noteq> 215)
         then Char (digit0 c) (digit1 c) (digit2 c) (digit3 c) (digit4 c) True (digit6 c) (digit7 c)
         else c)"

definition toLowerCase :: "string \<Rightarrow> string" where
  "toLowerCase s = map toLowerCase_char s"

text \<open>\<^verbatim>\<open>s.includes(pat)\<close>: \<open>pat\<close> occurs in \<open>s\<close> as a substring.\<close>

fun str_includes :: "string \<Rightarrow> string \<Rightarrow> bool" where
  "str_includes [] pat = (pat = [])"
| "str_includes (c # cs) pat = (prefix pat (c # cs) \<or> str_includes cs pat)"

text \<open>
  The class \<^verbatim>\<open>\s\<close> of a regular expression, and the characters \<^verbatim>\<open>trim\<close> removes:
  tab, line feed, vertical tab, form feed, carriage return, space, no-break space.
\<close>

definition is_space :: "char \<Rightarrow> bool" where
  "is_space c = ((of_char c :: nat) \<in> {9, 10, 11, 12, 13, 32, 160})"

definition trim :: "string \<Rightarrow> string" where
  "trim s = rev (dropWhile is_space (rev (dropWhile is_space s)))"

text \<open>\<^verbatim>\<open>s.split(sep)\<close> for a separator of one character; the result is never empty.\<close>

fun split_on :: "char \<Rightarrow> string \<Rightarrow> string list" where
  "split_on sep [] = [[]]"
| "split_on sep (c # cs) =
     (if c = sep then [] # split_on sep cs
      else (case split_on sep cs of
              [] \<Rightarrow> [[c]]
            | p # ps \<Rightarrow> (c # p) # ps))"

text \<open>\<^verbatim>\<open>parts.join(sep)\<close>\<close>

fun join :: "string \<Rightarrow> string list \<Rightarrow> string" where
  "join sep [] = []"
| "join sep [p] = p"
| "join sep (p # q # ps) = p @ sep @ join sep (q # ps)"

definition nl :: string where
  "nl = [CHR 0x0A]"

text \<open>
  The two pictographs of the source's labels (U+1F4C4 and U+1F4F7), written as their UTF-8
  bytes; no result depends on the length of a label.
\<close>

definition page_sign :: string where
  "page_sign = [CHR 0xF0, CHR 0x9F, CHR 0x93, CHR 0x84]"

definition camera_sign :: string where
  "camera_sign = [CHR 0xF0, CHR 0x9F, CHR 0x93, CHR 0xB7]"

section \<open>The services a turn calls\<close>

text \<open>
  What \<^verbatim>\<open>env.AI.run\<close> resolves to: a string, an object with its fields
  \<^verbatim>\<open>description\<close>, \<^verbatim>\<open>response\<close> and \<^verbatim>\<open>text\<close> (in this order, each may be missing),
  or \<^verbatim>\<open>null\<close>.
\<close>

datatype ai_result =
    AI_string string
  | AI_object "string option" "string option" "string option"
  | AI_null

record geo_result =
  latitude :: string
  longitude :: string
  geo_name :: string
  country :: string

record current_weather =
  weather_code :: int
  temperature_2m :: string
  relative_humidity_2m :: string
  wind_speed_10m :: string

record search_data =
  AbstractText :: "string option"
  RelatedTopics :: "string option list option"

text \<open>A role-tagged message of a generation request: \<^verbatim>\<open>{ role, content }\<close>.\<close>

type_synonym chat_message = "string \<times> string"

text \<open>
  Everything outside the worker during one turn.
  \<^item> \<open>atob\<close>, \<open>toUpperCase\<close>: the platform's functions (decoding can throw; upper-casing
    leaves the code units below 256).
  \<^item> \<open>vision image prompt\<close>, \<open>chat messages\<close>: the two models behind \<^verbatim>\<open>env.AI.run\<close>.
  \<^item> \<open>geocoding city\<close>: the geocoding request and its \<^verbatim>\<open>results\<close> (\<open>None\<close> when absent);
    \<open>forecast latitude longitude\<close>: the forecast request and its \<^verbatim>\<open>current\<close> object;
    \<open>duckduckgo query\<close>: the search request.
  \<^item> \<open>utc_at_lookup\<close>, \<open>utc_at_prompt\<close>: \<^verbatim>\<open>new Date().toUTCString()\<close> where it is read.
  \<^item> the ambient readings of the four Durable Object requests of a turn.
\<close>

record env =
  atob :: "string \<Rightarrow> exn + string"
  toUpperCase :: "string \<Rightarrow> string"
  vision :: "string \<Rightarrow> string \<Rightarrow> exn + ai_result"
  chat :: "chat_message list \<Rightarrow> exn + ai_result"
  geocoding :: "string \<Rightarrow> exn + geo_result list option"
  forecast :: "string \<Rightarrow> string \<Rightarrow> exn + current_weather option"
  duckduckgo :: "string \<Rightarrow> exn + search_data"
  utc_at_lookup :: string
  utc_at_prompt :: string
  history_read :: ambient
  user_append :: ambient
  reply_append :: ambient
  preview_update :: ambient

text \<open>The calls a turn makes to the outside, in the order the model issues them.\<close>

datatype call =
    Weather_lookup string
  | Web_search string
  | Vision_run string string
  | Chat_run "chat_message list"

text \<open>
  Reading \<open>property\<close> of \<open>what\<close> (\<^verbatim>\<open>null\<close> or \<^verbatim>\<open>undefined\<close>) throws a \<^verbatim>\<open>TypeError\<close>
  with the message of the worker's engine (V8).
\<close>

definition TypeError :: "string \<Rightarrow> string \<Rightarrow> exn" where
  "TypeError what property =
     Error (''Cannot read properties of '' @ what @ '' (reading '' @ [CHR 0x27] @ property @
            [CHR 0x27] @ '')'')"

section \<open>analyzeImage\<close>

text \<open>\<^verbatim>\<open>dataUrl.split(',')[1]\<close>, passed to \<^verbatim>\<open>atob\<close> (which reads \<^verbatim>\<open>undefined\<close> as text).\<close>

definition base64_of :: "string \<Rightarrow> string" where
  "base64_of dataUrl =
     (case split_on CHR '','' dataUrl of
        _ # d # _ \<Rightarrow> d
      | _ \<Rightarrow> ''undefined'')"

definition vision_prompt :: "string \<Rightarrow> string" where
  "vision_prompt userQuestion =
     (if userQuestion \<noteq> []
      then ''Analyze this image and answer the following question: '' @ userQuestion @
           ''. Provide detailed observations and insights.''
      else ''Describe this image in comprehensive detail. Include: objects, people, text visible in the image, colors, setting, actions, emotions, and any other relevant details. If there's text in the image, transcribe it exactly.'')"

text \<open>Lines 200-211: the text of the model's answer, by the shape of the answer.\<close>

fun vision_text :: "ai_result \<Rightarrow> exn + string" where
  "vision_text (AI_string s) = Inr s"
| "vision_text (AI_object d r t) =
     Inr (or_else d (or_else r (or_else t ''Image analyzed successfully.'')))"
| "vision_text AI_null = Inl (TypeError ''null'' ''description'')"

text \<open>The body of the \<^verbatim>\<open>try\<close> block, with the calls it made.\<close>

definition analyzeImage_try :: "env \<Rightarrow> string \<Rightarrow> string \<Rightarrow> (exn + string) \<times> call list" where
  "analyzeImage_try e imageDataUrl userQuestion =
     (case atob e (base64_of imageDataUrl) of
        Inl err \<Rightarrow> (Inl err, [])
      | Inr bytes \<Rightarrow>
          (case vision e bytes (vision_prompt userQuestion) of
             Inl err \<Rightarrow> (Inl err, [Vision_run bytes (vision_prompt userQuestion)])
           | Inr answer \<Rightarrow> (vision_text answer, [Vision_run bytes (vision_prompt userQuestion)])))"

definition analyzeImage :: "env \<Rightarrow> string \<Rightarrow> string \<Rightarrow> string \<times> call list" where
  "analyzeImage e imageDataUrl userQuestion =
     (case analyzeImage_try e imageDataUrl userQuestion of
        (Inr result, calls) \<Rightarrow> (result, calls)
      | (Inl err, calls) \<Rightarrow>
          (''Image uploaded (analysis unavailable: '' @ message_or ''unknown error'' err @ '').'',
           calls))"

section \<open>extractTextFromFile\<close>

text \<open>\<^verbatim>\<open>fileName.split('.').pop()?.toLowerCase()\<close>\<close>

definition extension_of :: "string \<Rightarrow> string" where
  "extension_of fileName = toLowerCase (last (split_on CHR ''.'' fileName))"

definition image_extensions :: "string list" where
  "image_extensions = [''jpg'', ''jpeg'', ''png'', ''gif'', ''webp'', ''bmp'']"

definition text_extensions :: "string list" where
  "text_extensions =
     [''txt'', ''md'', ''json'', ''csv'', ''html'', ''xml'', ''js'', ''ts'', ''py'', ''java'',
      ''c'', ''cpp'', ''css'', ''yml'', ''yaml'', ''toml'', ''ini'', ''log'', ''sql'', ''sh'',
      ''bash'']"

text \<open>The character class of the PDF scan: \<^verbatim>\<open>[A-Za-z0-9\s\.,;:!?\-'"\(\)]\<close>.\<close>

definition is_readable :: "char \<Rightarrow> bool" where
  \<open>is_readable c =
     (let n = (of_char c :: nat)
      in (65 \<le> n \<and> n \<le> 90) \<or> (97 \<le> n \<and> n \<le> 122) \<or> (48 \<le> n \<and> n \<le> 57) \<or>
         is_space c \<or> c \<in> set ''.,;:!?-'"()'')\<close>

text \<open>
  \<^verbatim>\<open>text.match(/[...]+/g)\<close>: the maximal runs of characters of the class, left to right
  (\<open>run\<close> is the run being read).
\<close>

fun runs :: "(char \<Rightarrow> bool) \<Rightarrow> string \<Rightarrow> string \<Rightarrow> string list" where
  "runs p run [] = (if run = [] then [] else [run])"
| "runs p run (c # cs) =
     (if p c then runs p (run @ [c]) cs
      else if run = [] then runs p [] cs
      else run # runs p [] cs)"

text \<open>Lines 255-270: the \<^verbatim>\<open>try\<close> block of the PDF branch.\<close>

definition pdf_text :: "env \<Rightarrow> string \<Rightarrow> string \<Rightarrow> string" where
  \<open>pdf_text e fileName base64Data =
     (case atob e base64Data of
        Inl err \<Rightarrow>
          page_sign @ '' PDF file "'' @ fileName @
          ''" uploaded. Please describe what you'd like to know about it.''
      | Inr text \<Rightarrow>
          (let textMatch = runs is_readable [] text;
               extractedText = take 8000 (join '' '' textMatch)
           in if length textMatch > 10 \<and> length extractedText > 100
              then page_sign @ '' PDF file "'' @ fileName @ ''" content (extracted text):'' @
                   nl @ nl @ extractedText @
                   (if length extractedText = 8000
                    then nl @ nl @ ''[Content truncated - showing first 8000 characters]''
                    else [])
              else page_sign @ '' PDF file "'' @ fileName @
                   ''" uploaded. I can see it's a PDF but couldn't extract the text automatically. Could you tell me what's in the document or copy-paste the text?''))\<close>

text \<open>The body of the outer \<^verbatim>\<open>try\<close> block (lines 226-276).\<close>

definition extractTextFromFile_try ::
  "env \<Rightarrow> string \<Rightarrow> string \<Rightarrow> string \<Rightarrow> (exn + string) \<times> call list" where
  \<open>extractTextFromFile_try e fileName fileDataUrl userQuestion =
     (let extension = extension_of fileName;
          base64Data = base64_of fileDataUrl
      in if extension \<in> set image_extensions then
           (case analyzeImage e fileDataUrl userQuestion of
              (imageAnalysis, calls) \<Rightarrow>
                (Inr (camera_sign @ '' Image file "'' @ fileName @ ''" analysis:'' @ nl @ nl @
                      imageAnalysis), calls))
         else if extension \<in> set text_extensions then
           (case atob e base64Data of
              Inl err \<Rightarrow> (Inl err, [])
            | Inr text \<Rightarrow>
                (let preview =
                       (if length text > 8000
                        then take 8000 text @ ''...'' @ nl @ nl @
                             ''[File truncated - showing first 8000 characters]''
                        else text)
                 in (Inr (page_sign @ '' File "'' @ fileName @ ''" contents:'' @ nl @ nl @ preview),
                     [])))
         else if extension = ''pdf'' then (Inr (pdf_text e fileName base64Data), [])
         else
           (Inr (page_sign @ '' File "'' @ fileName @ ''" uploaded ('' @
                 or_else (Some (toUpperCase e extension)) ''unknown'' @
                 '' format). Please tell me what you'd like to know about this file.''), []))\<close>

definition extractTextFromFile ::
  "env \<Rightarrow> string \<Rightarrow> string \<Rightarrow> string \<Rightarrow> string \<times> call list" where
  \<open>extractTextFromFile e fileName fileDataUrl userQuestion =
     (case extractTextFromFile_try e fileName fileDataUrl userQuestion of
        (Inr result, calls) \<Rightarrow> (result, calls)
      | (Inl err, calls) \<Rightarrow>
          (page_sign @ '' File "'' @ fileName @
           ''" received. Please describe what you'd like to know about it.'', calls))\<close>

section \<open>getWeather and webSearch\<close>

text \<open>\<^verbatim>\<open>weatherCodes[current.weather_code] || 'Unknown'\<close>\<close>

definition weatherCodes :: "(int \<times> string) list" where
  "weatherCodes =
     [(0, ''Clear sky''), (1, ''Mainly clear''), (2, ''Partly cloudy''), (3, ''Overcast''),
      (45, ''Foggy''), (51, ''Light drizzle''), (61, ''Light rain''), (63, ''Moderate rain''),
      (65, ''Heavy rain''), (80, ''Rain showers''), (95, ''Thunderstorm'')]"

definition degree_sign :: string where
  "degree_sign = [CHR 0xB0]"

text \<open>The body of the \<^verbatim>\<open>try\<close> block of \<^verbatim>\<open>getWeather\<close> (lines 285-307).\<close>

definition getWeather_try :: "env \<Rightarrow> string \<Rightarrow> exn + string" where
  "getWeather_try e city =
     (case geocoding e city of
        Inl err \<Rightarrow> Inl err
      | Inr None \<Rightarrow> Inr (''Could not find weather data for '' @ city)
      | Inr (Some []) \<Rightarrow> Inr (''Could not find weather data for '' @ city)
      | Inr (Some (place # _)) \<Rightarrow>
          (case forecast e (latitude place) (longitude place) of
             Inl err \<Rightarrow> Inl err
           | Inr None \<Rightarrow> Inl (TypeError ''undefined'' ''weather_code'')
           | Inr (Some current) \<Rightarrow>
               Inr (''Weather in '' @ geo_name place @ '', '' @ country place @ '': '' @
                    or_else (map_of weatherCodes (weather_code current)) ''Unknown'' @
                    '', Temperature: '' @ temperature_2m current @ degree_sign @
                    ''C, Humidity: '' @ relative_humidity_2m current @
                    ''%, Wind: '' @ wind_speed_10m current @ '' km/h'')))"

definition getWeather :: "env \<Rightarrow> string \<Rightarrow> string \<times> call list" where
  "getWeather e city =
     (case getWeather_try e city of
        Inr result \<Rightarrow> (result, [Weather_lookup city])
      | Inl err \<Rightarrow> (''Unable to fetch weather data'', [Weather_lookup city]))"

definition webSearch_try :: "env \<Rightarrow> string \<Rightarrow> exn + string" where
  "webSearch_try e query =
     (case duckduckgo e query of
        Inl err \<Rightarrow> Inl err
      | Inr data \<Rightarrow>
          (if truthy (AbstractText data)
           then Inr (''Search result: '' @ or_else (AbstractText data) [])
           else (case RelatedTopics data of
                   Some (firstTopic # _) \<Rightarrow>
                     (if truthy firstTopic
                      then Inr (''Search result: '' @ or_else firstTopic [])
                      else Inr (''No information found for: '' @ query))
                 | _ \<Rightarrow> Inr (''No information found for: '' @ query))))"

definition webSearch :: "env \<Rightarrow> string \<Rightarrow> string \<times> call list" where
  "webSearch e query =
     (case webSearch_try e query of
        Inr result \<Rightarrow> (result, [Web_search query])
      | Inl err \<Rightarrow> (''Unable to search'', [Web_search query]))"

section \<open>getExternalInfo\<close>

text \<open>
  The city of a weather question: \<^verbatim>\<open>message.match(/in\s+([a-zA-Z\s]+?)(?:\?|$|\.)/i)\<close>,
  as the backtracking matcher runs it. The functions return the text of group 1.
\<close>

definition is_city_char :: "char \<Rightarrow> bool" where
  "is_city_char c =
     (let n = (of_char c :: nat)
      in (65 \<le> n \<and> n \<le> 90) \<or> (97 \<le> n \<and> n \<le> 122) \<or> is_space c)"

text \<open>\<^verbatim>\<open>(?:\?|$|\.)\<close> at the rest of the input.\<close>

fun at_city_end :: "string \<Rightarrow> bool" where
  "at_city_end [] = True"
| "at_city_end (c # _) = (c = CHR ''?'' \<or> c = CHR ''.'')"

text \<open>
  \<^verbatim>\<open>([a-zA-Z\s]+?)\<close> is lazy: with \<open>seen\<close> read so far (not empty), stop as soon as the end
  pattern matches, else read one more character of the class.
\<close>

fun city_group :: "string \<Rightarrow> string \<Rightarrow> string option" where
  "city_group seen [] = Some seen"
| "city_group seen (c # cs) =
     (if at_city_end (c # cs) then Some seen
      else if is_city_char c then city_group (seen @ [c]) cs
      else None)"

fun city_from :: "string \<Rightarrow> string option" where
  "city_from [] = None"
| "city_from (c # cs) = (if is_city_char c then city_group [c] cs else None)"

text \<open>
  \<^verbatim>\<open>\s*\<close> is greedy: read one more space if the rest then matches, else go on with the
  group from here.
\<close>

fun spaces_then_city :: "string \<Rightarrow> string option" where
  "spaces_then_city [] = city_from []"
| "spaces_then_city (c # cs) =
     (if is_space c then
        (case spaces_then_city cs of
           Some seen \<Rightarrow> Some seen
         | None \<Rightarrow> city_from (c # cs))
      else city_from (c # cs))"

text \<open>A match that starts here: \<^verbatim>\<open>in\<close> in either case, \<^verbatim>\<open>\s+\<close>, the group, the end.\<close>

fun city_here :: "string \<Rightarrow> string option" where
  "city_here (i # n # s # rest) =
     (if toLowerCase_char i = CHR ''i'' \<and> toLowerCase_char n = CHR ''n'' \<and> is_space s
      then spaces_then_city rest else None)"
| "city_here _ = None"

text \<open>The leftmost match.\<close>

fun cityMatch :: "string \<Rightarrow> string option" where
  "cityMatch [] = None"
| "cityMatch (c # cs) =
     (case city_here (c # cs) of
        Some seen \<Rightarrow> Some seen
      | None \<Rightarrow> cityMatch cs)"

definition wants_weather :: "string \<Rightarrow> bool" where
  "wants_weather lowerMessage =
     (str_includes lowerMessage ''weather'' \<or> str_includes lowerMessage ''temperature'')"

definition wants_time :: "string \<Rightarrow> bool" where
  "wants_time lowerMessage =
     (str_includes lowerMessage ''time'' \<or> str_includes lowerMessage ''date'' \<or>
      str_includes lowerMessage ''day'')"

definition wants_news :: "string \<Rightarrow> bool" where
  "wants_news lowerMessage =
     (str_includes lowerMessage ''news'' \<or> str_includes lowerMessage ''latest'' \<or>
      str_includes lowerMessage ''current'')"

text \<open>\<^verbatim>\<open>getExternalInfo\<close> (lines 380-399): the text, or \<open>None\<close> for \<^verbatim>\<open>null\<close>.\<close>

definition getExternalInfo :: "env \<Rightarrow> string \<Rightarrow> string option \<times> call list" where
  "getExternalInfo e message =
     (let lowerMessage = toLowerCase message;
          after_weather =
            (if wants_time lowerMessage then
               (Some (''Current date and time: '' @ utc_at_lookup e @ '' (UTC)''), [])
             else if wants_news lowerMessage then
               (case webSearch e message of
                  (result, calls) \<Rightarrow> (Some result, calls))
             else (None, []))
      in if wants_weather lowerMessage then
           (case cityMatch message of
              Some city \<Rightarrow>
                (case getWeather e (trim city) of
                   (result, calls) \<Rightarrow> (Some result, calls))
            | None \<Rightarrow> after_weather)
         else after_weather)"

section \<open>coordinateChat\<close>

text \<open>
  The worker's view of its Durable Objects: one \<^verbatim>\<open>ChatHistory\<close> per session name, and
  the \<^verbatim>\<open>ChatSessions\<close> object of \<^verbatim>\<open>'user-default'\<close>.
\<close>

record world =
  histories :: "string \<Rightarrow> chat_history"
  directory :: chat_sessions

text \<open>\<^verbatim>\<open>env.CHAT_HISTORY.get(idFromName(sessionId)).fetch(request)\<close>\<close>

definition history_fetch ::
  "ambient \<Rightarrow> history_request \<Rightarrow> string \<Rightarrow> world \<Rightarrow> world \<times> (exn + history_response)" where
  "history_fetch amb req sessionId w =
     (case ChatHistory_fetch amb req (histories w sessionId) of
        (h, r) \<Rightarrow> (w\<lparr>histories := (histories w)(sessionId := h)\<rparr>, r))"

text \<open>The three context texts of a turn; \<open>[]\<close> is the empty text.\<close>

record enrichment =
  imageContext :: string
  fileContext :: string
  externalContext :: string

text \<open>
  Lines 417-479: the tasks and the merge of their results. A task's \<open>data\<close> is \<open>None\<close> when
  the task was not started or gave \<^verbatim>\<open>null\<close>; only truthy data is written to the bundle.
  The tasks run concurrently; the calls are listed task by task.
\<close>

definition gather ::
  "env \<Rightarrow> string \<Rightarrow> string option \<Rightarrow> string option \<Rightarrow> string option \<Rightarrow> enrichment \<times> call list" where
  "gather e message image' fileData fileName =
     (let (image_data, image_calls) =
            (case image' of
               Some i \<Rightarrow>
                 (if i \<noteq> [] then
                    (case analyzeImage e i message of (result, calls) \<Rightarrow> (Some result, calls))
                  else (None, []))
             | None \<Rightarrow> (None, []));
          (file_data, file_calls) =
            (case (fileData, fileName) of
               (Some d, Some n) \<Rightarrow>
                 (if d \<noteq> [] \<and> n \<noteq> [] then
                    (case extractTextFromFile e n d message of
                       (result, calls) \<Rightarrow> (Some result, calls))
                  else (None, []))
             | _ \<Rightarrow> (None, []));
          (external_data, external_calls) = getExternalInfo e message
      in (\<lparr> imageContext = or_else image_data [],
            fileContext = or_else file_data [],
            externalContext = or_else external_data [] \<rparr>,
          image_calls @ file_calls @ external_calls))"

definition systemPrompt :: "env \<Rightarrow> enrichment \<Rightarrow> string" where
  "systemPrompt e b =
     ''You are a helpful AI assistant with access to file and image analysis capabilities. Current date and time: '' @
     utc_at_prompt e @ ''.'' @ nl @ nl @
     ''When users upload files or images, the content is automatically extracted and provided to you in the [FILE CONTENT] or [IMAGE ANALYSIS] sections. You CAN see and analyze this content directly. Respond based on the actual content provided, not as if you cannot access it.'' @
     (if externalContext b \<noteq> [] then nl @ nl @ externalContext b else [])"

text \<open>Lines 486-515: the text of the user turn.\<close>

definition userMessage :: "string \<Rightarrow> enrichment \<Rightarrow> string" where
  "userMessage message b =
     (let m1 = (if imageContext b \<noteq> []
                then ''[IMAGE ANALYSIS]'' @ nl @ imageContext b @ nl @ nl else []);
          m2 = (if fileContext b \<noteq> []
                then m1 @ ''[FILE CONTENT]'' @ nl @ fileContext b @ nl @ nl else m1);
          m3 = (if message \<noteq> [] then
                  (if imageContext b \<noteq> [] \<or> fileContext b \<noteq> []
                   then m2 @ ''[USER'S QUESTION]'' @ nl @ message
                   else message)
                else if imageContext b \<noteq> [] \<or> fileContext b \<noteq> [] then
                  m2 @ ''Please analyze the '' @
                  (if imageContext b \<noteq> [] then ''image'' else ''file'') @
                  '' I've uploaded and provide detailed insights.''
                else m2)
      in if m3 = [] then ''Hello! How can I help you today?'' else m3)"

text \<open>Lines 526-530: the messages of the generation request.\<close>

definition chat_messages :: "string \<Rightarrow> message list \<Rightarrow> string \<Rightarrow> chat_message list" where
  "chat_messages system history user =
     [(''system'', system)] @
     map (\<lambda>m. (role m, content m)) (slice_last 10 history) @
     [(''user'', user)]"

text \<open>
  \<^verbatim>\<open>!response || !response.response\<close> throws; otherwise the reply is
  \<^verbatim>\<open>response.response\<close>. A string has no such property.
\<close>

fun reply_of :: "ai_result \<Rightarrow> exn + string" where
  "reply_of (AI_object d (Some r) t) =
     (if r \<noteq> [] then Inr r else Inl (Error ''Invalid response from AI''))"
| "reply_of _ = Inl (Error ''Invalid response from AI'')"

text \<open>Lines 525-539: the generation call and its usable text.\<close>

definition generate :: "env \<Rightarrow> chat_message list \<Rightarrow> exn + string" where
  "generate e request =
     (case chat e request of
        Inl err \<Rightarrow> Inl err
      | Inr answer \<Rightarrow> reply_of answer)"

text \<open>Lines 541-549: the two appends, user turn first.\<close>

definition commit_turn ::
  "env \<Rightarrow> string \<Rightarrow> string \<Rightarrow> string \<Rightarrow> world \<Rightarrow> world \<times> (exn + string)" where
  "commit_turn e sessionId user aiResponse w =
     (case history_fetch (user_append e) (POST_messages ''user'' user) sessionId w of
        (w1, Inl err) \<Rightarrow> (w1, Inl err)
      | (w1, Inr _) \<Rightarrow>
          (case history_fetch (reply_append e) (POST_messages ''assistant'' aiResponse) sessionId w1 of
             (w2, Inl err) \<Rightarrow> (w2, Inl err)
           | (w2, Inr _) \<Rightarrow> (w2, Inr aiResponse)))"

text \<open>\<^verbatim>\<open>historyData.messages || []\<close>\<close>

fun messages_of :: "history_response \<Rightarrow> message list" where
  "messages_of (Messages_json ms c) = ms"
| "messages_of _ = []"

text \<open>
  \<^verbatim>\<open>coordinateChat\<close> (lines 401-552): the new world, the reply or the thrown value, and
  the calls made.
\<close>

definition coordinateChat ::
  "env \<Rightarrow> string \<Rightarrow> string \<Rightarrow> string option \<Rightarrow> string option \<Rightarrow> string option \<Rightarrow> world \<Rightarrow>
     world \<times> (exn + string) \<times> call list" where
  "coordinateChat e message sessionId image' fileData fileName w =
     (case gather e message image' fileData fileName of
        (b, calls) \<Rightarrow>
          (case history_fetch (history_read e) GET_messages sessionId w of
             (w1, Inl err) \<Rightarrow> (w1, Inl err, calls)
           | (w1, Inr historyData) \<Rightarrow>
               (let request = chat_messages (systemPrompt e b) (messages_of historyData)
                                (userMessage message b);
                    calls1 = calls @ [Chat_run request]
                in case generate e request of
                     Inl err \<Rightarrow> (w1, Inl err, calls1)
                   | Inr aiResponse \<Rightarrow>
                       (case commit_turn e sessionId (userMessage message b) aiResponse w1 of
                          (w2, r) \<Rightarrow> (w2, r, calls1)))))"

section \<open>handleChat\<close>

record chat_body =
  body_message :: "string option"
  body_sessionId :: string
  body_image :: "string option"
  body_fileName :: "string option"
  body_fileData :: "string option"

datatype chat_response =
    Response_200 string string
  | Response_500 string

text \<open>\<^verbatim>\<open>handleChat\<close> (lines 616-678) on a parsed request body.\<close>

definition handleChat :: "env \<Rightarrow> chat_body \<Rightarrow> world \<Rightarrow> world \<times> chat_response \<times> call list" where
  "handleChat e body w =
     (if \<not> truthy (body_message body) \<and> \<not> truthy (body_image body) \<and>
         \<not> truthy (body_fileData body)
      then (w, Response_500 ''Message, image, or file is required'', [])
      else
        (case coordinateChat e (or_else (body_message body) []) (body_sessionId body)
                (body_image body) (body_fileData body) (body_fileName body) w of
           (w1, Inl err, calls) \<Rightarrow> (w1, Response_500 (message_or ''Unknown error'' err), calls)
         | (w1, Inr aiResponse, calls) \<Rightarrow>
             (case ChatSessions_fetch (preview_update e)
                     (PUT_sessions \<lparr> body_id = Some (body_sessionId body), body_name = None,
                        body_lastMessage =
                          Some (or_else (body_message body) ''Sent an attachment'') \<rparr>)
                     (directory w1) of
                (d, Inl err) \<Rightarrow>
                  (w1\<lparr>directory := d\<rparr>, Response_500 (message_or ''Unknown error'' err), calls)
              | (d, Inr _) \<Rightarrow>
                  (w1\<lparr>directory := d\<rparr>, Response_200 aiResponse (body_sessionId body), calls))))"

section \<open>Notions used by the properties\<close>


text \<open>No two sessions share an id, in memory and in storage.\<close>

definition ids_distinct :: "chat_sessions \<Rightarrow> bool" where
  "ids_distinct st =
     (distinct (map session_id (sessions st)) \<and>
      (case sessions_stored st of
         Some stored \<Rightarrow> distinct (map session_id stored)
       | None \<Rightarrow> True))"

text \<open>
  Every create of the run gets an id (supplied or generated) that the directory does not
  hold at that moment.
\<close>

fun creates_fresh :: "(ambient \<times> sessions_request) list \<Rightarrow> chat_sessions \<Rightarrow> bool" where
  "creates_fresh [] st = True"
| "creates_fresh ((amb, req) # rest) st =
     ((case req of
         POST_sessions b \<Rightarrow> new_session_id amb b \<notin> session_id ` set (summaries st)
       | _ \<Rightarrow> True) \<and>
      creates_fresh rest (fst (ChatSessions_fetch amb req st)))"

text \<open>
  The intent of a message in the words of the specification: the first of weather, time and
  news whose keywords occur in the lower-cased text.
\<close>

datatype intent = Weather_intent | Time_intent | News_intent

definition first_intent :: "string \<Rightarrow> intent option" where
  "first_intent message =
     (let lowerMessage = toLowerCase message
      in if wants_weather lowerMessage then Some Weather_intent
         else if wants_time lowerMessage then Some Time_intent
         else if wants_news lowerMessage then Some News_intent
         else None)"

text \<open>
  The lookup \<^verbatim>\<open>getExternalInfo\<close> ran, read off its result and its calls: a weather
  lookup, a search, the date text (no call), or nothing.
\<close>

fun lookup_kind :: "string option \<times> call list \<Rightarrow> intent option" where
  "lookup_kind (r, [Weather_lookup city]) = Some Weather_intent"
| "lookup_kind (r, [Web_search query]) = Some News_intent"
| "lookup_kind (Some result, []) = Some Time_intent"
| "lookup_kind _ = None"

text \<open>
  No message log differs between two worlds: a read shows the same list for every
  session, and storage holds the same list.
\<close>

definition logs_unchanged :: "world \<Rightarrow> world \<Rightarrow> bool" where
  "logs_unchanged w w' =
     (\<forall>sessionId.
        history_of (histories w' sessionId) = history_of (histories w sessionId) \<and>
        messages_stored (histories w' sessionId) = messages_stored (histories w sessionId))"

text \<open>A call to the generation model.\<close>

fun is_chat_run :: "call \<Rightarrow> bool" where
  "is_chat_run (Chat_run r) = True"
| "is_chat_run _ = False"

text \<open>The generation request of a turn, from the inputs and the history read.\<close>

definition turn_request ::
  "env \<Rightarrow> string \<Rightarrow> string option \<Rightarrow> string option \<Rightarrow> string option \<Rightarrow> message list \<Rightarrow>
     chat_message list" where
  "turn_request e m i d n history =
     chat_messages (systemPrompt e (fst (gather e m i d n))) history
       (userMessage m (fst (gather e m i d n)))"

text \<open>The call of \<^verbatim>\<open>coordinateChat\<close> that \<^verbatim>\<open>handleChat\<close> makes for a body.\<close>

abbreviation turn_of :: "env \<Rightarrow> chat_body \<Rightarrow> world \<Rightarrow> world \<times> (exn + string) \<times> call list" where
  "turn_of e body w \<equiv>
     coordinateChat e (or_else (body_message body) []) (body_sessionId body)
       (body_image body) (body_fileData body) (body_fileName body) w"

text \<open>All four Durable Object requests of a turn find their storage working.\<close>

definition turn_storage_up :: "env \<Rightarrow> bool" where
  "turn_storage_up e =
     (history_storage_up (history_read e) \<and> history_storage_up (user_append e) \<and>
      history_storage_up (reply_append e) \<and> storage_up (preview_update e))"

section \<open>Inputs of the examples\<close>

definition io_up :: "storage_op \<Rightarrow> exn option" where
  "io_up op = None"

definition io_down :: "storage_op \<Rightarrow> exn option" where
  "io_down op = Some (Error ''storage unavailable'')"

definition tick :: "nat \<Rightarrow> nat" where
  "tick k = 1700000000000 + k"

definition amb_up :: ambient where
  "amb_up = \<lparr> io = io_up, clock = tick, random = ''k3x9m2p4q'' \<rparr>"

definition amb_down :: ambient where
  "amb_down = \<lparr> io = io_down, clock = tick, random = ''k3x9m2p4q'' \<rparr>"

definition atob_same :: "string \<Rightarrow> exn + string" where
  "atob_same s = Inr s"

definition upper_ascii :: "string \<Rightarrow> string" where
  "upper_ascii s =
     map (\<lambda>c. if 97 \<le> (of_char c :: nat) \<and> (of_char c :: nat) \<le> 122
              then Char (digit0 c) (digit1 c) (digit2 c) (digit3 c) (digit4 c) False
                     (digit6 c) (digit7 c)
              else c) s"

definition vision_down :: "string \<Rightarrow> string \<Rightarrow> exn + ai_result" where
  "vision_down bytes prompt = Inl (Error ''model unavailable'')"

definition chat_hi :: "chat_message list \<Rightarrow> exn + ai_result" where
  "chat_hi request = Inr (AI_object None (Some ''Hi there'') None)"

definition chat_down :: "chat_message list \<Rightarrow> exn + ai_result" where
  "chat_down request = Inl (Error ''model unavailable'')"

definition geocoding_down :: "string \<Rightarrow> exn + geo_result list option" where
  "geocoding_down city = Inl (Error ''fetch failed'')"

definition forecast_down :: "string \<Rightarrow> string \<Rightarrow> exn + current_weather option" where
  "forecast_down lat lon = Inl (Error ''fetch failed'')"

definition duckduckgo_down :: "string \<Rightarrow> exn + search_data" where
  "duckduckgo_down query = Inl (Error ''fetch failed'')"

text \<open>
  An environment whose storage and generation model work and whose lookups and vision
  model fail.
\<close>

definition env_lookups_down :: env where
  "env_lookups_down =
     \<lparr> atob = atob_same, toUpperCase = upper_ascii, vision = vision_down, chat = chat_hi,
       geocoding = geocoding_down, forecast = forecast_down, duckduckgo = duckduckgo_down,
       utc_at_lookup = ''Mon, 02 Nov 2026 12:00:00 GMT'',
       utc_at_prompt = ''Mon, 02 Nov 2026 12:00:01 GMT'',
       history_read = amb_up, user_append = amb_up, reply_append = amb_up,
       preview_update = amb_up \<rparr>"

text \<open>The same with the directory's storage failing.\<close>

definition env_directory_down :: env where
  "env_directory_down = env_lookups_down\<lparr>preview_update := amb_down\<rparr>"

text \<open>The same with the generation model failing.\<close>

definition env_chat_down :: env where
  "env_chat_down = env_lookups_down\<lparr>chat := chat_down\<rparr>"

text \<open>The same with a generation model that answers with an empty \<^verbatim>\<open>response\<close>.\<close>

definition chat_empty :: "chat_message list \<Rightarrow> exn + ai_result" where
  "chat_empty request = Inr (AI_object None (Some []) None)"

definition env_chat_empty :: env where
  "env_chat_empty = env_lookups_down\<lparr>chat := chat_empty\<rparr>"

text \<open>The same with a platform whose decoding throws.\<close>

definition atob_down :: "string \<Rightarrow> exn + string" where
  "atob_down s = Inl (Error ''Invalid character'')"

definition env_decode_down :: env where
  "env_decode_down = env_lookups_down\<lparr>atob := atob_down\<rparr>"


definition notes_data :: string where
  "notes_data = ''data:text/plain;base64,aGVsbG8=''"

definition new_world :: world where
  "new_world = \<lparr> histories = (\<lambda>sessionId. new_ChatHistory), directory = new_ChatSessions \<rparr>"

definition create_a :: "ambient \<times> sessions_request" where
  "create_a =
     (amb_up, POST_sessions \<lparr>body_id = Some ''a'', body_name = None, body_lastMessage = None\<rparr>)"

definition create_generated :: "ambient \<times> sessions_request" where
  "create_generated =
     (amb_up, POST_sessions \<lparr>body_id = None, body_name = None, body_lastMessage = None\<rparr>)"

definition hello_body :: chat_body where
  "hello_body =
     \<lparr> body_message = Some ''Hello'', body_sessionId = ''s1'', body_image = None,
       body_fileName = None, body_fileData = None \<rparr>"

definition empty_body :: chat_body where
  "empty_body =
     \<lparr> body_message = None, body_sessionId = ''s1'', body_image = None,
       body_fileName = None, body_fileData = None \<rparr>"

definition paris_question :: string where
  \<open>paris_question = ''What's the weather in Paris?''\<close>

definition session_b :: session where
  "session_b =
     \<lparr> session_id = ''b'', name = ''Beta'', lastMessage = Some ''see you'',
       createdAt = 20, updatedAt = 25 \<rparr>"

definition session_a :: session where
  "session_a =
     \<lparr> session_id = ''a'', name = ''Old name'', lastMessage = Some ''hello'',
       createdAt = 10, updatedAt = 15 \<rparr>"

definition two_sessions :: chat_sessions where
  "two_sessions =
     \<lparr> sessions = [session_b, session_a], sessions_stored = Some [session_b, session_a] \<rparr>"

definition hi_body :: chat_body where
  "hi_body =
     \<lparr> body_message = Some ''hi'', body_sessionId = ''s1'', body_image = None,
       body_fileName = None, body_fileData = None \<rparr>"

definition paris_body :: chat_body where
  "paris_body =
     \<lparr> body_message = Some paris_question, body_sessionId = ''s1'', body_image = None,
       body_fileName = None, body_fileData = None \<rparr>"

definition earlier :: "message list" where
  "earlier =
     [\<lparr> role = ''user'', content = ''Hello'', timestamp = 1 \<rparr>,
      \<lparr> role = ''assistant'', content = ''Hi there'', timestamp = 2 \<rparr>,
      \<lparr> role = ''user'', content = ''How are you?'', timestamp = 3 \<rparr>]"

definition world_with_history :: world where
  "world_with_history =
     \<lparr> histories =
         (\<lambda>sessionId. \<lparr> messages = earlier, userContext = Map.empty,
                         messages_stored = Some earlier, userContext_stored = None \<rparr>),
       directory = new_ChatSessions \<rparr>"

definition picture :: string where
  "picture = ''data:image/png;base64,iVBORw0KGgo=''"

section \<open>Properties\<close>

subsection \<open>The message log keeps the last 50 appended messages\<close>


lemma slice_last_snoc:
  "slice_last k (slice_last k xs @ [x]) = slice_last k (xs @ [x])"
proof (cases "length xs \<le> k")
  case True
  then show ?thesis by (simp add: slice_last_def)
next
  case False
  then have "Suc (length xs) - k = Suc (length xs - k)" by simp
  with False show ?thesis by (simp add: slice_last_def)
qed

lemma slice_last_short: "length xs \<le> k \<Longrightarrow> slice_last k xs = xs"
  by (simp add: slice_last_def)

lemma length_slice_last: "length (slice_last k xs) = min (length xs) k"
  by (simp add: slice_last_def)










subsection \<open>Ids in the session directory\<close>


lemma findIndex_Some:
  "findIndex p xs = Some k \<Longrightarrow> k < length xs \<and> p (xs ! k) \<and> (\<forall>j<k. \<not> p (xs ! j))"
proof (induction xs arbitrary: k)
  case Nil
  then show ?case by simp
next
  case (Cons x xs)
  show ?case
  proof (cases "p x")
    case True
    with Cons.prems show ?thesis by simp
  next
    case False
    with Cons.prems obtain k' where k: "k = Suc k'" and f: "findIndex p xs = Some k'"
      by auto
    from Cons.IH[OF f] False show ?thesis
      by (auto simp: k less_Suc_eq_0_disj)
  qed
qed

lemma findIndex_None: "findIndex p xs = None \<longleftrightarrow> (\<forall>x \<in> set xs. \<not> p x)"
  by (induction xs) auto

lemma findIndex_exists: "\<exists>x \<in> set xs. p x \<Longrightarrow> \<exists>k. findIndex p xs = Some k"
  using findIndex_None[of p xs] by (cases "findIndex p xs") auto

lemma load_sessions_up:
  "io amb (Get ''sessions'') = None \<Longrightarrow>
   load_sessions amb st = Inr (st\<lparr>sessions := summaries st\<rparr>)"
  by (simp add: load_sessions_def summaries_def split: option.splits)

lemma load_sessions_cases:
  "(\<exists>e. load_sessions amb st = Inl e) \<or>
   load_sessions amb st = Inr (st\<lparr>sessions := summaries st\<rparr>)"
  by (auto simp: load_sessions_def summaries_def split: option.splits)

lemma session_id_apply_update [simp]: "session_id (apply_update amb b s) = session_id s"
  by (simp add: apply_update_def Let_def split: option.splits)

lemma map_session_id_update:
  "i < length xs \<Longrightarrow> map session_id (xs[i := apply_update amb b (xs ! i)]) = map session_id xs"
  by (simp add: map_update list_update_same_conv)

lemma ids_distinct_summaries:
  "ids_distinct st \<Longrightarrow> distinct (map session_id (summaries st))"
  by (auto simp: ids_distinct_def summaries_def split: option.splits)

lemma put_sessions_distinct:
  "distinct (map session_id (sessions st)) \<Longrightarrow>
   (case sessions_stored st of Some stored \<Rightarrow> distinct (map session_id stored) | None \<Rightarrow> True) \<Longrightarrow>
   ids_distinct (fst (put_sessions amb st resp))"
  by (simp add: put_sessions_def ids_distinct_def split: option.splits)

lemma route_distinct:
  assumes "distinct (map session_id (sessions st))"
    and "case sessions_stored st of Some stored \<Rightarrow> distinct (map session_id stored) | None \<Rightarrow> True"
    and "case req of POST_sessions b \<Rightarrow> new_session_id amb b \<notin> session_id ` set (sessions st)
         | _ \<Rightarrow> True"
  shows "ids_distinct (fst (sessions_route amb req st))"
proof (cases req)
  case GET_sessions
  with assms show ?thesis by (simp add: ids_distinct_def)
next
  case (POST_sessions b)
  with assms show ?thesis
    by (simp add: Let_def put_sessions_distinct newSession_def)
next
  case (PUT_sessions b)
  show ?thesis
  proof (cases "findIndex (\<lambda>s. Some (session_id s) = body_id b) (sessions st)")
    case None
    with assms PUT_sessions show ?thesis by (simp add: ids_distinct_def)
  next
    case (Some i)
    then have "i < length (sessions st)" by (simp add: findIndex_Some)
    with assms PUT_sessions Some show ?thesis
      by (simp add: Let_def put_sessions_distinct map_session_id_update)
  qed
next
  case (DELETE_sessions b)
  with assms show ?thesis
    by (simp add: Let_def put_sessions_distinct distinct_map_filter)
next
  case Other_sessions
  with assms show ?thesis by (simp add: ids_distinct_def)
qed

lemma fetch_distinct:
  assumes "ids_distinct st"
    and "case req of POST_sessions b \<Rightarrow> new_session_id amb b \<notin> session_id ` set (summaries st)
         | _ \<Rightarrow> True"
  shows "ids_distinct (fst (ChatSessions_fetch amb req st))"
proof -
  from load_sessions_cases[of amb st] show ?thesis
  proof
    assume "\<exists>e. load_sessions amb st = Inl e"
    then obtain e where "load_sessions amb st = Inl e" ..
    with assms(1) show ?thesis by (simp add: ChatSessions_fetch_def)
  next
    let ?st1 = "st\<lparr>sessions := summaries st\<rparr>"
    assume l: "load_sessions amb st = Inr ?st1"
    have "ids_distinct (fst (sessions_route amb req ?st1))"
    proof (rule route_distinct)
      show "distinct (map session_id (sessions ?st1))"
        using ids_distinct_summaries[OF assms(1)] by simp
      show "case sessions_stored ?st1 of Some stored \<Rightarrow> distinct (map session_id stored)
            | None \<Rightarrow> True"
        using assms(1) by (simp add: ids_distinct_def)
      show "case req of POST_sessions b \<Rightarrow> new_session_id amb b \<notin> session_id ` set (sessions ?st1)
            | _ \<Rightarrow> True"
        using assms(2) by (cases req) simp_all
    qed
    with l show ?thesis by (simp add: ChatSessions_fetch_def)
  qed
qed

lemma serve_distinct:
  "ids_distinct st \<Longrightarrow> creates_fresh reqs st \<Longrightarrow> ids_distinct (serve_sessions reqs st)"
proof (induction reqs arbitrary: st)
  case Nil
  then show ?case by simp
next
  case (Cons ar reqs)
  obtain amb req where ar: "ar = (amb, req)" by (cases ar)
  from Cons.prems have
    f: "case req of POST_sessions b \<Rightarrow> new_session_id amb b \<notin> session_id ` set (summaries st)
        | _ \<Rightarrow> True"
    and r: "creates_fresh reqs (fst (ChatSessions_fetch amb req st))"
    by (simp_all add: ar)
  from Cons.IH[OF fetch_distinct[OF Cons.prems(1) f] r] show ?case by (simp add: ar)
qed

lemma creates_fresh_take: "creates_fresh reqs st \<Longrightarrow> creates_fresh (take k reqs) st"
proof (induction reqs arbitrary: st k)
  case Nil
  then show ?case by simp
next
  case (Cons ar reqs)
  obtain amb req where ar: "ar = (amb, req)" by (cases ar)
  show ?case
  proof (cases k)
    case 0
    then show ?thesis by simp
  next
    case (Suc k')
    with Cons show ?thesis by (simp add: ar)
  qed
qed

text \<open>
  C8, as amended. Requests served from the empty directory, every create with an id the
  directory does not hold at that moment: after each request (after the first \<open>k\<close>, for
  every \<open>k\<close>) no two summaries share an id, whatever the storage does.
\<close>

theorem fresh_creates_keep_ids_distinct:
  assumes "creates_fresh reqs new_ChatSessions"
  shows "distinct (map session_id (summaries (serve_sessions (take k reqs) new_ChatSessions)))"
proof -
  have "ids_distinct new_ChatSessions" by (simp add: ids_distinct_def new_ChatSessions_def)
  from serve_distinct[OF this creates_fresh_take[OF assms]]
  show ?thesis by (rule ids_distinct_summaries)
qed

theorem fresh_creates_keep_ids_distinct_witness:
  "creates_fresh [create_a, create_generated] new_ChatSessions \<and>
   map session_id (summaries (serve_sessions [create_a, create_generated] new_ChatSessions)) =
     [''session-k3x9m2p4q'', ''a''] \<and>
   distinct (map session_id
     (summaries (serve_sessions (take 2 [create_a, create_generated]) new_ChatSessions)))"
  using fresh_creates_keep_ids_distinct [of "[create_a, create_generated]" 2]
  by (simp add: create_a_def create_generated_def amb_up_def io_up_def
      ChatSessions_fetch_def load_sessions_def put_sessions_def newSession_def
      new_session_id_def new_ChatSessions_def summaries_def Let_def)

text \<open>
  C8 as stated fails: two creates with the same supplied id leave two summaries with
  that id.
\<close>

theorem duplicate_create_counterexample:
  "map session_id (summaries (serve_sessions [create_a, create_a] new_ChatSessions)) =
     [''a'', ''a''] \<and>
   \<not> distinct (map session_id
     (summaries (serve_sessions [create_a, create_a] new_ChatSessions)))"
  by (simp add: create_a_def amb_up_def io_up_def
      ChatSessions_fetch_def load_sessions_def put_sessions_def newSession_def
      new_session_id_def new_ChatSessions_def summaries_def Let_def)

text \<open>
  In general: a create whose id the directory already holds puts a second summary with
  that id at the front.
\<close>

lemma create_with_present_id_duplicates:
  assumes "io amb (Get ''sessions'') = None"
    and "new_session_id amb b \<in> session_id ` set (summaries st)"
  shows "sessions (fst (ChatSessions_fetch amb (POST_sessions b) st)) =
           newSession amb b # summaries st \<and>
         \<not> distinct (map session_id (sessions (fst (ChatSessions_fetch amb (POST_sessions b) st))))"
  using assms
  by (auto simp: ChatSessions_fetch_def load_sessions_up put_sessions_def Let_def newSession_def
      split: option.splits)

subsection \<open>Updates of a summary\<close>


lemma update_existing:
  assumes up: "storage_up amb"
    and f: "findIndex (\<lambda>s. Some (session_id s) = body_id b) (summaries st) = Some k"
  shows "ChatSessions_fetch amb (PUT_sessions b) st =
           (\<lparr> sessions = (summaries st)[k := apply_update amb b (summaries st ! k)],
              sessions_stored = Some ((summaries st)[k := apply_update amb b (summaries st ! k)]) \<rparr>,
            Inr (Session_json (apply_update amb b (summaries st ! k))))"
proof -
  from up have g: "io amb (Get ''sessions'') = None" and p: "io amb (Put ''sessions'') = None"
    by (simp_all add: storage_up_def)
  from findIndex_Some[OF f] have k: "k < length (summaries st)" by simp
  show ?thesis
    by (simp add: ChatSessions_fetch_def load_sessions_up[OF g] f Let_def put_sessions_def p k)
qed

lemma update_missing:
  assumes up: "storage_up amb"
    and f: "findIndex (\<lambda>s. Some (session_id s) = body_id b) (summaries st) = None"
  shows "ChatSessions_fetch amb (PUT_sessions b) st =
           (st\<lparr>sessions := summaries st\<rparr>, Inr Session_not_found)"
proof -
  from up have g: "io amb (Get ''sessions'') = None" by (simp add: storage_up_def)
  show ?thesis by (simp add: ChatSessions_fetch_def load_sessions_up[OF g] f)
qed

lemma summaries_loaded [simp]: "summaries (st\<lparr>sessions := summaries st\<rparr>) = summaries st"
  by (simp add: summaries_def split: option.splits)

text \<open>
  C9. An update that carries only a name (not empty, such as \<open>''X''\<close>), with working
  storage. If the id exists, at its first position \<open>k\<close>: the directory afterwards is the
  directory before with the summary at \<open>k\<close> changed in \<open>name\<close> and \<open>updatedAt\<close> only, so
  the id, the preview, \<open>createdAt\<close>, the position and every other summary are as before.
  If the id does not exist: the answer is not-found and the directory is as before.
\<close>

theorem rename_changes_name_and_updatedAt_only:
  assumes "storage_up amb" and "n \<noteq> []"
  shows "case findIndex (\<lambda>s. session_id s = i) (summaries st) of
           Some k \<Rightarrow>
             k < length (summaries st) \<and> session_id (summaries st ! k) = i \<and>
             ChatSessions_fetch amb
                 (PUT_sessions \<lparr>body_id = Some i, body_name = Some n, body_lastMessage = None\<rparr>) st =
               (\<lparr> sessions = (summaries st)
                     [k := (summaries st ! k)\<lparr>name := n, updatedAt := clock amb 0\<rparr>],
                  sessions_stored = Some ((summaries st)
                     [k := (summaries st ! k)\<lparr>name := n, updatedAt := clock amb 0\<rparr>]) \<rparr>,
                Inr (Session_json ((summaries st ! k)\<lparr>name := n, updatedAt := clock amb 0\<rparr>)))
         | None \<Rightarrow>
             i \<notin> session_id ` set (summaries st) \<and>
             snd (ChatSessions_fetch amb
                 (PUT_sessions \<lparr>body_id = Some i, body_name = Some n, body_lastMessage = None\<rparr>) st) =
               Inr Session_not_found \<and>
             summaries (fst (ChatSessions_fetch amb
                 (PUT_sessions \<lparr>body_id = Some i, body_name = Some n, body_lastMessage = None\<rparr>) st)) =
               summaries st \<and>
             sessions_stored (fst (ChatSessions_fetch amb
                 (PUT_sessions \<lparr>body_id = Some i, body_name = Some n, body_lastMessage = None\<rparr>) st)) =
               sessions_stored st"
proof (cases "findIndex (\<lambda>s. session_id s = i) (summaries st)")
  case None
  let ?b = "\<lparr>body_id = Some i, body_name = Some n, body_lastMessage = None\<rparr>"
  from None have f: "findIndex (\<lambda>s. Some (session_id s) = body_id ?b) (summaries st) = None"
    by simp
  from None have "i \<notin> session_id ` set (summaries st)"
    by (auto simp: findIndex_None)
  with None show ?thesis
    by (simp add: update_missing[OF assms(1) f])
next
  case (Some k)
  let ?b = "\<lparr>body_id = Some i, body_name = Some n, body_lastMessage = None\<rparr>"
  from Some have f: "findIndex (\<lambda>s. Some (session_id s) = body_id ?b) (summaries st) = Some k"
    by simp
  have a: "apply_update amb ?b s = s\<lparr>name := n, updatedAt := clock amb 0\<rparr>" for s
    using assms(2) by (simp add: apply_update_def)
  from findIndex_Some[OF Some] update_existing[OF assms(1) f] Some show ?thesis
    by (simp add: a)
qed

theorem rename_changes_name_and_updatedAt_only_witness:
  "storage_up amb_up \<and>
   ChatSessions_fetch amb_up
       (PUT_sessions \<lparr>body_id = Some ''a'', body_name = Some ''X'', body_lastMessage = None\<rparr>)
       two_sessions =
     (\<lparr> sessions = [session_b, session_a\<lparr>name := ''X'', updatedAt := 1700000000000\<rparr>],
        sessions_stored =
          Some [session_b, session_a\<lparr>name := ''X'', updatedAt := 1700000000000\<rparr>] \<rparr>,
      Inr (Session_json (session_a\<lparr>name := ''X'', updatedAt := 1700000000000\<rparr>)))"
  using rename_changes_name_and_updatedAt_only [of amb_up "''X''" "''a''" two_sessions]
  by (simp add: storage_up_def amb_up_def io_up_def tick_def two_sessions_def summaries_def
      session_a_def session_b_def)

text \<open>
  C10. An update of an existing summary (first position \<open>k\<close>) with the empty name and the
  empty preview succeeds; the name stays, the preview becomes empty and \<open>updatedAt\<close> is
  refreshed. With the empty name and no preview only \<open>updatedAt\<close> changes.
\<close>

theorem empty_name_kept_empty_preview_written:
  assumes "storage_up amb"
    and "findIndex (\<lambda>s. session_id s = i) (summaries st) = Some k"
  shows "ChatSessions_fetch amb
             (PUT_sessions \<lparr>body_id = Some i, body_name = Some [], body_lastMessage = Some []\<rparr>) st =
           (\<lparr> sessions = (summaries st)
                 [k := (summaries st ! k)\<lparr>lastMessage := Some [], updatedAt := clock amb 0\<rparr>],
              sessions_stored = Some ((summaries st)
                 [k := (summaries st ! k)\<lparr>lastMessage := Some [], updatedAt := clock amb 0\<rparr>]) \<rparr>,
            Inr (Session_json
               ((summaries st ! k)\<lparr>lastMessage := Some [], updatedAt := clock amb 0\<rparr>))) \<and>
         fst (ChatSessions_fetch amb
             (PUT_sessions \<lparr>body_id = Some i, body_name = Some [], body_lastMessage = None\<rparr>) st) =
           \<lparr> sessions = (summaries st)[k := (summaries st ! k)\<lparr>updatedAt := clock amb 0\<rparr>],
             sessions_stored =
               Some ((summaries st)[k := (summaries st ! k)\<lparr>updatedAt := clock amb 0\<rparr>]) \<rparr>"
proof -
  let ?b = "\<lparr>body_id = Some i, body_name = Some [], body_lastMessage = Some []\<rparr>"
  let ?c = "\<lparr>body_id = Some i, body_name = Some [], body_lastMessage = None\<rparr>"
  from assms(2) have
    f: "findIndex (\<lambda>s. Some (session_id s) = body_id ?b) (summaries st) = Some k" and
    g: "findIndex (\<lambda>s. Some (session_id s) = body_id ?c) (summaries st) = Some k"
    by simp_all
  have a: "apply_update amb ?b s = s\<lparr>lastMessage := Some [], updatedAt := clock amb 0\<rparr>"
    and c: "apply_update amb ?c s = s\<lparr>updatedAt := clock amb 0\<rparr>" for s
    by (simp_all add: apply_update_def)
  from update_existing[OF assms(1) f] update_existing[OF assms(1) g] show ?thesis
    by (simp add: a c)
qed


theorem empty_name_kept_empty_preview_written_witness:
  "storage_up amb_up \<and>
   findIndex (\<lambda>s. session_id s = ''a'') (summaries two_sessions) = Some 1 \<and>
   ChatSessions_fetch amb_up
       (PUT_sessions \<lparr>body_id = Some ''a'', body_name = Some [], body_lastMessage = Some []\<rparr>)
       two_sessions =
     (\<lparr> sessions = [session_b, session_a\<lparr>lastMessage := Some [], updatedAt := 1700000000000\<rparr>],
        sessions_stored =
          Some [session_b, session_a\<lparr>lastMessage := Some [], updatedAt := 1700000000000\<rparr>] \<rparr>,
      Inr (Session_json (session_a\<lparr>lastMessage := Some [], updatedAt := 1700000000000\<rparr>)))"
  using empty_name_kept_empty_preview_written [of amb_up "''a''" two_sessions 1]
  by (simp add: storage_up_def amb_up_def io_up_def tick_def two_sessions_def summaries_def
      session_a_def session_b_def)

subsection \<open>How a turn runs\<close>


text \<open>The enrichment tasks never call the generation model.\<close>

lemma analyzeImage_calls: "\<forall>c \<in> set (snd (analyzeImage e i q)). \<not> is_chat_run c"
  by (auto simp: analyzeImage_def analyzeImage_try_def split: sum.splits prod.splits)

lemma extractTextFromFile_calls:
  "\<forall>c \<in> set (snd (extractTextFromFile e n d q)). \<not> is_chat_run c"
  using analyzeImage_calls[of e d q]
  by (auto simp: extractTextFromFile_def extractTextFromFile_try_def Let_def
      split: sum.splits prod.splits if_splits)

lemma getExternalInfo_calls: "\<forall>c \<in> set (snd (getExternalInfo e m)). \<not> is_chat_run c"
  by (auto simp: getExternalInfo_def getWeather_def webSearch_def Let_def
      split: sum.splits prod.splits option.splits if_splits)

lemma gather_calls: "\<forall>c \<in> set (snd (gather e m i d n)). \<not> is_chat_run c"
  using analyzeImage_calls[of e "the i" m] extractTextFromFile_calls[of e "the n" "the d" m]
    getExternalInfo_calls[of e m]
  by (auto simp: gather_def Let_def split: prod.splits option.splits if_splits)

lemma gather_no_chat_run: "Chat_run r \<notin> set (snd (gather e m i d n))"
  using gather_calls[of e m i d n] by fastforce



text \<open>Reading the history.\<close>

lemma load_history_view:
  "load_history amb h = Inr h1 \<Longrightarrow>
   messages h1 = history_of h \<and> messages_stored h1 = messages_stored h \<and>
   history_of h1 = history_of h"
  by (auto simp: load_history_def history_of_def Let_def split: if_splits option.splits)

lemma load_history_up:
  "history_storage_up amb \<Longrightarrow> \<exists>h1. load_history amb h = Inr h1"
  by (auto simp: load_history_def history_storage_up_def Let_def split: option.splits)

lemma fetch_GET_messages:
  "ChatHistory_fetch amb GET_messages h = (h1, r) \<Longrightarrow>
   history_of h1 = history_of h \<and> messages_stored h1 = messages_stored h \<and>
   (\<forall>resp. r = Inr resp \<longrightarrow> messages_of resp = history_of h)"
  using load_history_view[of amb h]
  by (auto simp: ChatHistory_fetch_def split: sum.splits)

lemma fetch_GET_messages_up:
  "history_storage_up amb \<Longrightarrow> \<exists>h1 resp. ChatHistory_fetch amb GET_messages h = (h1, Inr resp)"
  using load_history_up[of amb h]
  by (auto simp: ChatHistory_fetch_def split: sum.splits)

lemma read_history:
  assumes "history_fetch amb GET_messages sid w = (w1, r)"
  shows "logs_unchanged w w1 \<and> directory w1 = directory w \<and>
         (\<forall>resp. r = Inr resp \<longrightarrow> messages_of resp = history_of (histories w sid))"
proof -
  obtain h1 r1 where f: "ChatHistory_fetch amb GET_messages (histories w sid) = (h1, r1)"
    by (cases "ChatHistory_fetch amb GET_messages (histories w sid)")
  from assms f have w1: "w1 = w\<lparr>histories := (histories w)(sid := h1)\<rparr>" and r: "r = r1"
    by (simp_all add: history_fetch_def)
  from fetch_GET_messages[OF f] show ?thesis
    by (simp add: w1 r logs_unchanged_def)
qed

lemma read_history_up:
  "history_storage_up amb \<Longrightarrow> \<exists>w1 resp. history_fetch amb GET_messages sid w = (w1, Inr resp)"
  using fetch_GET_messages_up[of amb "histories w sid"]
  by (auto simp: history_fetch_def)

text \<open>The shape of a run of coordinateChat.\<close>

lemma coordinateChat_read_fails:
  "history_fetch (history_read e) GET_messages sid w = (w1, Inl err) \<Longrightarrow>
   coordinateChat e m sid i d n w = (w1, Inl err, snd (gather e m i d n))"
  by (simp add: coordinateChat_def case_prod_beta)

lemma coordinateChat_generate_fails:
  "history_fetch (history_read e) GET_messages sid w = (w1, Inr resp) \<Longrightarrow>
   generate e (turn_request e m i d n (messages_of resp)) = Inl err \<Longrightarrow>
   coordinateChat e m sid i d n w =
     (w1, Inl err, snd (gather e m i d n) @ [Chat_run (turn_request e m i d n (messages_of resp))])"
  by (simp add: coordinateChat_def turn_request_def Let_def case_prod_beta)

lemma coordinateChat_generate_ok:
  "history_fetch (history_read e) GET_messages sid w = (w1, Inr resp) \<Longrightarrow>
   generate e (turn_request e m i d n (messages_of resp)) = Inr reply \<Longrightarrow>
   coordinateChat e m sid i d n w =
     (fst (commit_turn e sid (userMessage m (fst (gather e m i d n))) reply w1),
      snd (commit_turn e sid (userMessage m (fst (gather e m i d n))) reply w1),
      snd (gather e m i d n) @ [Chat_run (turn_request e m i d n (messages_of resp))])"
  by (simp add: coordinateChat_def turn_request_def Let_def case_prod_beta)

text \<open>The calls of a run: the enrichment calls, then the generation call if the read worked.\<close>

lemma coordinateChat_calls:
  assumes "history_fetch (history_read e) GET_messages sid w = (w1, r)"
  shows "snd (snd (coordinateChat e m sid i d n w)) =
           snd (gather e m i d n) @
           (case r of
              Inl err \<Rightarrow> []
            | Inr resp \<Rightarrow> [Chat_run (turn_request e m i d n (history_of (histories w sid)))])"
proof (cases r)
  case (Inl err)
  with assms show ?thesis by (simp add: coordinateChat_read_fails)
next
  case (Inr resp)
  from read_history[OF assms] Inr have h: "messages_of resp = history_of (histories w sid)"
    by simp
  show ?thesis
  proof (cases "generate e (turn_request e m i d n (messages_of resp))")
    case (Inl err)
    from coordinateChat_generate_fails[OF assms[unfolded Inr] Inl] show ?thesis
      by (simp add: Inr h)
  next
    case (Inr reply)
    from coordinateChat_generate_ok[OF assms[unfolded \<open>r = Inr resp\<close>] Inr] show ?thesis
      by (simp add: \<open>r = Inr resp\<close> h)
  qed
qed

lemma coordinateChat_request:
  assumes "Chat_run request \<in> set (snd (snd (coordinateChat e m sid i d n w)))"
  shows "request = turn_request e m i d n (history_of (histories w sid)) \<and>
         (\<exists>w1 resp. history_fetch (history_read e) GET_messages sid w = (w1, Inr resp))"
proof -
  obtain w1 r where f: "history_fetch (history_read e) GET_messages sid w = (w1, r)"
    by (cases "history_fetch (history_read e) GET_messages sid w")
  from assms coordinateChat_calls[OF f, of m i d n] gather_no_chat_run[of request e m i d n]
  show ?thesis using f by (cases r) auto
qed



text \<open>The shape of a run of handleChat.\<close>

lemma handleChat_calls:
  "snd (snd (handleChat e body w)) =
     (if \<not> truthy (body_message body) \<and> \<not> truthy (body_image body) \<and>
         \<not> truthy (body_fileData body)
      then [] else snd (snd (turn_of e body w)))"
  by (simp add: handleChat_def split: prod.splits sum.splits)

lemma handleChat_turn_fails:
  assumes "truthy (body_message body) \<or> truthy (body_image body) \<or> truthy (body_fileData body)"
    and "turn_of e body w = (w1, Inl err, calls)"
  shows "handleChat e body w = (w1, Response_500 (message_or ''Unknown error'' err), calls)"
  using assms by (auto simp: handleChat_def)

lemma handleChat_turn_ok:
  assumes "truthy (body_message body) \<or> truthy (body_image body) \<or> truthy (body_fileData body)"
    and "turn_of e body w = (w1, Inr reply, calls)"
  shows "handleChat e body w =
           (w1\<lparr>directory := fst (ChatSessions_fetch (preview_update e)
                  (PUT_sessions \<lparr> body_id = Some (body_sessionId body), body_name = None,
                     body_lastMessage = Some (or_else (body_message body) ''Sent an attachment'') \<rparr>)
                  (directory w1))\<rparr>,
            (case snd (ChatSessions_fetch (preview_update e)
                  (PUT_sessions \<lparr> body_id = Some (body_sessionId body), body_name = None,
                     body_lastMessage = Some (or_else (body_message body) ''Sent an attachment'') \<rparr>)
                  (directory w1)) of
               Inl err \<Rightarrow> Response_500 (message_or ''Unknown error'' err)
             | Inr r \<Rightarrow> Response_200 reply (body_sessionId body)),
            calls)"
  using assms by (auto simp: handleChat_def split: prod.splits sum.splits)



text \<open>Appending the two messages of a turn.\<close>

lemma push_message_eq:
  "push_message amb r c ms =
     slice_last 50 (ms @ [\<lparr> role = r, content = c, timestamp = clock amb 0 \<rparr>])"
  by (simp add: push_message_def Let_def slice_last_def)

lemma fetch_POST_messages:
  assumes "ChatHistory_fetch amb (POST_messages r c) h = (h1, Inr resp)"
  shows "history_of h1 =
           slice_last 50 (history_of h @ [\<lparr> role = r, content = c, timestamp = clock amb 0 \<rparr>])"
proof -
  from assms obtain h0 where l: "load_history amb h = Inr h0"
    by (auto simp: ChatHistory_fetch_def split: sum.splits)
  from load_history_view[OF l] have m: "messages h0 = history_of h" by simp
  from assms l have "messages h1 = push_message amb r c (messages h0)"
    and "messages_stored h1 = Some (messages h1)"
    by (auto simp: ChatHistory_fetch_def Let_def split: option.splits)
  then show ?thesis by (simp add: history_of_def m push_message_eq)
qed

lemma fetch_POST_messages_up:
  assumes "history_storage_up amb"
  shows "snd (ChatHistory_fetch amb (POST_messages r c) h) = Inr Success_true"
proof -
  from load_history_up[OF assms] obtain h0 where l: "load_history amb h = Inr h0" by blast
  from assms have "io amb (Put ''messages'') = None" by (simp add: history_storage_up_def)
  with l show ?thesis by (simp add: ChatHistory_fetch_def Let_def)
qed

lemma history_fetch_POST:
  assumes "history_fetch amb (POST_messages r c) sid w = (w1, Inr resp)"
  shows "history_of (histories w1 sid) =
           slice_last 50 (history_of (histories w sid) @
             [\<lparr> role = r, content = c, timestamp = clock amb 0 \<rparr>]) \<and>
         directory w1 = directory w"
proof -
  obtain h1 r1 where f: "ChatHistory_fetch amb (POST_messages r c) (histories w sid) = (h1, r1)"
    by (cases "ChatHistory_fetch amb (POST_messages r c) (histories w sid)")
  with assms have "w1 = w\<lparr>histories := (histories w)(sid := h1)\<rparr>" and "r1 = Inr resp"
    by (simp_all add: history_fetch_def)
  with fetch_POST_messages[of amb r c "histories w sid" h1 resp] f show ?thesis by simp
qed

lemma history_fetch_POST_up:
  "history_storage_up amb \<Longrightarrow>
   snd (history_fetch amb (POST_messages r c) sid w) = Inr Success_true"
  using fetch_POST_messages_up[of amb r c "histories w sid"]
  by (simp add: history_fetch_def case_prod_beta)

lemma commit_turn_ok:
  assumes "commit_turn e sid user reply w = (w2, Inr reply')"
  shows "reply' = reply \<and> directory w2 = directory w \<and>
         history_of (histories w2 sid) =
           slice_last 50 (history_of (histories w sid) @
             [\<lparr> role = ''user'', content = user, timestamp = clock (user_append e) 0 \<rparr>,
              \<lparr> role = ''assistant'', content = reply, timestamp = clock (reply_append e) 0 \<rparr>])"
proof -
  obtain w1 r1 where
    f1: "history_fetch (user_append e) (POST_messages ''user'' user) sid w = (w1, r1)"
    by (cases "history_fetch (user_append e) (POST_messages ''user'' user) sid w")
  obtain w2' r2 where
    f2: "history_fetch (reply_append e) (POST_messages ''assistant'' reply) sid w1 = (w2', r2)"
    by (cases "history_fetch (reply_append e) (POST_messages ''assistant'' reply) sid w1")
  from assms f1 obtain resp1 where r1: "r1 = Inr resp1"
    by (cases r1) (auto simp: commit_turn_def)
  from assms f1 f2 r1 obtain resp2 where r2: "r2 = Inr resp2"
    by (cases r2) (auto simp: commit_turn_def)
  from assms f1 f2 r1 r2 have e: "w2 = w2'" "reply' = reply"
    by (auto simp: commit_turn_def)
  from history_fetch_POST[OF f1[unfolded r1]] history_fetch_POST[OF f2[unfolded r2]]
  show ?thesis
    using slice_last_snoc[of 50 "history_of (histories w sid) @
       [\<lparr> role = ''user'', content = user, timestamp = clock (user_append e) 0 \<rparr>]"
       "\<lparr> role = ''assistant'', content = reply, timestamp = clock (reply_append e) 0 \<rparr>"]
    by (simp add: e)
qed

lemma commit_turn_up:
  assumes "history_storage_up (user_append e)" and "history_storage_up (reply_append e)"
  shows "snd (commit_turn e sid user reply w) = Inr reply"
proof -
  obtain w1 r1 where
    f1: "history_fetch (user_append e) (POST_messages ''user'' user) sid w = (w1, r1)"
    by (cases "history_fetch (user_append e) (POST_messages ''user'' user) sid w")
  obtain w2 r2 where
    f2: "history_fetch (reply_append e) (POST_messages ''assistant'' reply) sid w1 = (w2, r2)"
    by (cases "history_fetch (reply_append e) (POST_messages ''assistant'' reply) sid w1")
  from history_fetch_POST_up[OF assms(1), of "''user''" user sid w] f1
  have r1: "r1 = Inr Success_true" by simp
  from history_fetch_POST_up[OF assms(2), of "''assistant''" reply sid w1] f2
  have r2: "r2 = Inr Success_true" by simp
  show ?thesis by (simp add: commit_turn_def f1 f2 r1 r2)
qed

lemma update_up:
  assumes "storage_up amb"
  shows "\<exists>r. snd (ChatSessions_fetch amb (PUT_sessions b) st) = Inr r"
proof (cases "findIndex (\<lambda>s. Some (session_id s) = body_id b) (summaries st)")
  case None
  from update_missing[OF assms None] show ?thesis by simp
next
  case (Some k)
  from update_existing[OF assms Some] show ?thesis by simp
qed

text \<open>A turn whose storage and generation work returns the reply.\<close>

lemma turn_succeeds:
  assumes up: "turn_storage_up e"
    and v: "truthy (body_message body) \<or> truthy (body_image body) \<or> truthy (body_fileData body)"
    and g: "\<forall>request. Chat_run request \<in> set (snd (snd (handleChat e body w))) \<longrightarrow>
              generate e request = Inr reply"
  shows "fst (snd (handleChat e body w)) = Response_200 reply (body_sessionId body)"
proof -
  let ?m = "or_else (body_message body) []" and ?sid = "body_sessionId body"
  let ?i = "body_image body" and ?d = "body_fileData body" and ?n = "body_fileName body"
  from up have u1: "history_storage_up (history_read e)"
    and u2: "history_storage_up (user_append e)" and u3: "history_storage_up (reply_append e)"
    and u4: "storage_up (preview_update e)" by (simp_all add: turn_storage_up_def)
  from read_history_up[OF u1] obtain w1 resp where
    f: "history_fetch (history_read e) GET_messages ?sid w = (w1, Inr resp)" by blast
  from read_history[OF f] have h: "messages_of resp = history_of (histories w ?sid)" by simp
  let ?req = "turn_request e ?m ?i ?d ?n (messages_of resp)"
  have "snd (snd (turn_of e body w)) = snd (gather e ?m ?i ?d ?n) @ [Chat_run ?req]"
    using coordinateChat_calls[OF f, of ?m ?i ?d ?n] by (simp add: h)
  with v have "Chat_run ?req \<in> set (snd (snd (handleChat e body w)))"
    by (auto simp: handleChat_calls)
  with g have gen: "generate e ?req = Inr reply" by blast
  let ?c = "commit_turn e ?sid (userMessage ?m (fst (gather e ?m ?i ?d ?n))) reply w1"
  from coordinateChat_generate_ok[OF f gen] commit_turn_up[OF u2 u3]
  have t: "turn_of e body w =
             (fst ?c, Inr reply, snd (gather e ?m ?i ?d ?n) @ [Chat_run ?req])"
    by simp
  from update_up[OF u4] obtain r where
    "snd (ChatSessions_fetch (preview_update e)
       (PUT_sessions \<lparr> body_id = Some ?sid, body_name = None,
          body_lastMessage = Some (or_else (body_message body) ''Sent an attachment'') \<rparr>)
       (directory (fst ?c))) = Inr r" by blast
  with handleChat_turn_ok[OF v t] show ?thesis by simp
qed



lemmas example_defs =
  env_lookups_down_def env_chat_down_def env_directory_down_def amb_up_def amb_down_def
  io_up_def io_down_def tick_def hello_body_def new_world_def new_ChatHistory_def
  new_ChatSessions_def chat_hi_def chat_down_def geocoding_down_def

lemmas turn_defs =
  handleChat_def coordinateChat_def gather_def getExternalInfo_def history_fetch_def
  ChatHistory_fetch_def load_history_def commit_turn_def generate_def push_message_def
  ChatSessions_fetch_def load_sessions_def put_sessions_def
  wants_weather_def wants_time_def wants_news_def toLowerCase_def toLowerCase_char_def
  userMessage_def chat_messages_def slice_last_def Let_def

subsection \<open>A turn without input\<close>

text \<open>
  C7. With message, image and file all empty or absent, the turn answers the validation
  error and has done nothing: the world is the one it started from (nothing appended, no
  directory update) and no call was made (no enrichment, no generation).
\<close>

theorem no_input_no_work:
  assumes "\<not> truthy (body_message body)" and "\<not> truthy (body_image body)"
    and "\<not> truthy (body_fileData body)"
  shows "handleChat e body w = (w, Response_500 ''Message, image, or file is required'', [])"
  using assms by (simp add: handleChat_def)

theorem no_input_no_work_witness:
  "\<not> truthy (body_message empty_body) \<and> \<not> truthy (body_image empty_body) \<and>
   \<not> truthy (body_fileData empty_body) \<and>
   handleChat env_lookups_down empty_body new_world =
     (new_world, Response_500 ''Message, image, or file is required'', [])"
  using no_input_no_work [of empty_body env_lookups_down new_world]
  by (simp add: empty_body_def)

subsection \<open>A turn whose generation fails\<close>

text \<open>A generation step that gives an error ends the turn with nothing appended.\<close>

lemma failed_generation_keeps_logs:
  assumes "Chat_run request \<in> set (snd (snd (handleChat e body w)))"
    and "generate e request = Inl err"
  shows "fst (snd (handleChat e body w)) = Response_500 (message_or ''Unknown error'' err) \<and>
         logs_unchanged w (fst (handleChat e body w)) \<and>
         directory (fst (handleChat e body w)) = directory w"
proof -
  let ?m = "or_else (body_message body) []" and ?sid = "body_sessionId body"
  from assms(1) have v:
    "truthy (body_message body) \<or> truthy (body_image body) \<or> truthy (body_fileData body)"
    and c: "Chat_run request \<in> set (snd (snd (turn_of e body w)))"
    by (auto simp: handleChat_calls split: if_splits)
  from coordinateChat_request[OF c] obtain w1 resp where
    r: "request = turn_request e ?m (body_image body) (body_fileData body) (body_fileName body)
          (history_of (histories w ?sid))"
    and f: "history_fetch (history_read e) GET_messages ?sid w = (w1, Inr resp)"
    by blast
  from read_history[OF f] have u: "logs_unchanged w w1" and d: "directory w1 = directory w"
    and h: "messages_of resp = history_of (histories w ?sid)" by simp_all
  from assms(2) r h have
    "generate e (turn_request e ?m (body_image body) (body_fileData body) (body_fileName body)
       (messages_of resp)) = Inl err" by simp
  from handleChat_turn_fails[OF v coordinateChat_generate_fails[OF f this]] u d
  show ?thesis by simp
qed

text \<open>
  C2. If the generation call of a turn throws, or answers without usable text (\<^verbatim>\<open>null\<close>, a
  bare string, an object whose \<^verbatim>\<open>response\<close> is missing or empty), the turn answers an
  error: the thrown message, or \<open>''Invalid response from AI''\<close>. No log differs from
  before: every session reads the same messages and stores the same messages, and the
  directory is untouched.
\<close>

theorem generation_failure_appends_nothing:
  assumes "Chat_run request \<in> set (snd (snd (handleChat e body w)))"
    and "chat e request = Inl err \<or>
         chat e request = Inr AI_null \<or>
         chat e request = Inr (AI_string s) \<or>
         chat e request = Inr (AI_object d None t) \<or>
         chat e request = Inr (AI_object d (Some []) t)"
  shows "fst (snd (handleChat e body w)) =
           Response_500
             (case chat e request of
                Inl thrown \<Rightarrow> message_or ''Unknown error'' thrown
              | Inr answer \<Rightarrow> ''Invalid response from AI'') \<and>
         logs_unchanged w (fst (handleChat e body w)) \<and>
         directory (fst (handleChat e body w)) = directory w"
proof (cases "chat e request")
  case (Inl thrown)
  then have "generate e request = Inl thrown" by (simp add: generate_def)
  from failed_generation_keeps_logs[OF assms(1) this] Inl show ?thesis by simp
next
  case (Inr answer)
  with assms(2) have "reply_of answer = Inl (Error ''Invalid response from AI'')" by auto
  with Inr have "generate e request = Inl (Error ''Invalid response from AI'')"
    by (simp add: generate_def)
  from failed_generation_keeps_logs[OF assms(1) this] Inr show ?thesis by simp
qed

lemma hello_calls:
  "snd (snd (handleChat env_chat_down hello_body new_world)) =
     [Chat_run (turn_request env_chat_down ''Hello'' None None None [])]"
  by (simp add: turn_defs example_defs turn_request_def)

lemma hello_calls_empty:
  "snd (snd (handleChat env_chat_empty hello_body new_world)) =
     [Chat_run (turn_request env_chat_empty ''Hello'' None None None [])]"
  by (simp add: turn_defs example_defs turn_request_def env_chat_empty_def chat_empty_def)

theorem generation_failure_appends_nothing_witness:
  "Chat_run (turn_request env_chat_down ''Hello'' None None None []) \<in>
     set (snd (snd (handleChat env_chat_down hello_body new_world))) \<and>
   chat env_chat_down (turn_request env_chat_down ''Hello'' None None None []) =
     Inl (Error ''model unavailable'') \<and>
   fst (snd (handleChat env_chat_down hello_body new_world)) =
     Response_500 ''model unavailable'' \<and>
   history_of (histories (fst (handleChat env_chat_down hello_body new_world)) ''s1'') = [] \<and>
   Chat_run (turn_request env_chat_empty ''Hello'' None None None []) \<in>
     set (snd (snd (handleChat env_chat_empty hello_body new_world))) \<and>
   chat env_chat_empty (turn_request env_chat_empty ''Hello'' None None None []) =
     Inr (AI_object None (Some []) None) \<and>
   fst (snd (handleChat env_chat_empty hello_body new_world)) =
     Response_500 ''Invalid response from AI'' \<and>
   history_of (histories (fst (handleChat env_chat_empty hello_body new_world)) ''s1'') = []"
proof -
  have c: "Chat_run (turn_request env_chat_down ''Hello'' None None None []) \<in>
     set (snd (snd (handleChat env_chat_down hello_body new_world)))"
    by (simp add: hello_calls)
  have g: "chat env_chat_down (turn_request env_chat_down ''Hello'' None None None []) =
     Inl (Error ''model unavailable'')"
    by (simp add: env_chat_down_def chat_down_def)
  have c': "Chat_run (turn_request env_chat_empty ''Hello'' None None None []) \<in>
     set (snd (snd (handleChat env_chat_empty hello_body new_world)))"
    by (simp add: hello_calls_empty)
  have g': "chat env_chat_empty (turn_request env_chat_empty ''Hello'' None None None []) =
     Inr (AI_object None (Some []) None)"
    by (simp add: env_chat_empty_def chat_empty_def)
  have n: "history_of (histories new_world ''s1'') = []"
    by (simp add: new_world_def new_ChatHistory_def history_of_def)
  from generation_failure_appends_nothing
         [of "turn_request env_chat_down ''Hello'' None None None []" env_chat_down hello_body
            new_world "Error ''model unavailable''" "[]" None None, OF c]
       generation_failure_appends_nothing
         [of "turn_request env_chat_empty ''Hello'' None None None []" env_chat_empty hello_body
            new_world "Error ''model unavailable''" "[]" None None, OF c']
       c g c' g' n
  show ?thesis by (simp add: logs_unchanged_def)
qed

subsection \<open>The generation request\<close>

lemma gather_hi:
  "gather e ''hi'' None None n =
     (\<lparr> imageContext = [], fileContext = [], externalContext = [] \<rparr>, [])"
  by (simp add: gather_def getExternalInfo_def wants_weather_def wants_time_def wants_news_def
      toLowerCase_def toLowerCase_char_def Let_def)

text \<open>
  C6. Every generation request of a turn is the system message, then the last
  \<open>min n 10\<close> of the \<open>n\<close> messages of the session's history in their order, then the
  user turn: at most 12 messages. With the message \<open>''hi''\<close>, no attachment and a history
  of three messages, the turn sends exactly five: system, the three, and \<open>''hi''\<close>.
\<close>

theorem generation_request_is_bounded:
  "(\<forall>request. Chat_run request \<in> set (snd (snd (handleChat e body w))) \<longrightarrow>
      (\<exists>system user.
         request =
           [(''system'', system)] @
           map (\<lambda>m. (role m, content m))
             (slice_last 10 (history_of (histories w (body_sessionId body)))) @
           [(''user'', user)]) \<and>
      length request = 2 + min (length (history_of (histories w (body_sessionId body)))) 10 \<and>
      length request \<le> 12) \<and>
   (body_message body = Some ''hi'' \<and> body_image body = None \<and> body_fileData body = None \<and>
    history_storage_up (history_read e) \<and>
    history_of (histories w (body_sessionId body)) = [m1, m2, m3] \<longrightarrow>
      snd (snd (handleChat e body w)) =
        [Chat_run
           [(''system'',
             systemPrompt e \<lparr> imageContext = [], fileContext = [], externalContext = [] \<rparr>),
            (role m1, content m1), (role m2, content m2), (role m3, content m3),
            (''user'', ''hi'')]])"
proof (intro conjI allI impI)
  fix request
  assume a: "Chat_run request \<in> set (snd (snd (handleChat e body w)))"
  then have "Chat_run request \<in> set (snd (snd (turn_of e body w)))"
    by (auto simp: handleChat_calls split: if_splits)
  from coordinateChat_request[OF this] have
    r: "request = turn_request e (or_else (body_message body) []) (body_image body)
          (body_fileData body) (body_fileName body)
          (history_of (histories w (body_sessionId body)))"
    by simp
  then show "\<exists>system user.
         request =
           [(''system'', system)] @
           map (\<lambda>m. (role m, content m))
             (slice_last 10 (history_of (histories w (body_sessionId body)))) @
           [(''user'', user)]"
    unfolding turn_request_def chat_messages_def by blast
  from r show "length request =
      2 + min (length (history_of (histories w (body_sessionId body)))) 10"
    by (simp add: turn_request_def chat_messages_def length_slice_last)
  then show "length request \<le> 12" by simp
next
  assume a: "body_message body = Some ''hi'' \<and> body_image body = None \<and>
    body_fileData body = None \<and> history_storage_up (history_read e) \<and>
    history_of (histories w (body_sessionId body)) = [m1, m2, m3]"
  from a read_history_up obtain w1 resp where
    f: "history_fetch (history_read e) GET_messages (body_sessionId body) w = (w1, Inr resp)"
    by blast
  from a have v: "truthy (body_message body)" by simp
  from a coordinateChat_calls[OF f, of "''hi''" None None "body_fileName body"]
  have "snd (snd (turn_of e body w)) =
          [Chat_run (turn_request e ''hi'' None None (body_fileName body) [m1, m2, m3])]"
    by (simp add: gather_hi)
  with v show "snd (snd (handleChat e body w)) =
        [Chat_run
           [(''system'',
             systemPrompt e \<lparr> imageContext = [], fileContext = [], externalContext = [] \<rparr>),
            (role m1, content m1), (role m2, content m2), (role m3, content m3),
            (''user'', ''hi'')]]"
    by (simp add: handleChat_calls turn_request_def gather_hi chat_messages_def
        slice_last_def userMessage_def)
qed


theorem generation_request_is_bounded_witness:
  "body_message hi_body = Some ''hi'' \<and> body_image hi_body = None \<and>
   body_fileData hi_body = None \<and> history_storage_up (history_read env_lookups_down) \<and>
   history_of (histories world_with_history (body_sessionId hi_body)) = earlier \<and>
   snd (snd (handleChat env_lookups_down hi_body world_with_history)) =
     [Chat_run
        [(''system'',
          systemPrompt env_lookups_down
            \<lparr> imageContext = [], fileContext = [], externalContext = [] \<rparr>),
         (''user'', ''Hello''), (''assistant'', ''Hi there''), (''user'', ''How are you?''),
         (''user'', ''hi'')]]"
  using generation_request_is_bounded
    [where e = env_lookups_down and body = hi_body and w = world_with_history
       and ?m1.0 = "earlier ! 0" and ?m2.0 = "earlier ! 1" and ?m3.0 = "earlier ! 2"]
  by (simp add: hi_body_def world_with_history_def earlier_def history_of_def
      history_storage_up_def env_lookups_down_def amb_up_def io_up_def)


subsection \<open>The lookup of a turn\<close>

lemma getWeather_calls: "snd (getWeather e city) = [Weather_lookup city]"
  by (simp add: getWeather_def split: sum.splits)

lemma webSearch_calls: "snd (webSearch e query) = [Web_search query]"
  by (simp add: webSearch_def split: sum.splits)

lemma getExternalInfo_weather:
  "wants_weather (toLowerCase message) \<Longrightarrow> cityMatch message = Some city \<Longrightarrow>
   getExternalInfo e message = (Some (fst (getWeather e (trim city))), [Weather_lookup (trim city)])"
  using getWeather_calls[of e "trim city"]
  by (simp add: getExternalInfo_def Let_def case_prod_beta)

lemma getExternalInfo_time:
  "\<not> (wants_weather (toLowerCase message) \<and> cityMatch message \<noteq> None) \<Longrightarrow>
   wants_time (toLowerCase message) \<Longrightarrow>
   getExternalInfo e message =
     (Some (''Current date and time: '' @ utc_at_lookup e @ '' (UTC)''), [])"
  by (auto simp: getExternalInfo_def Let_def split: option.splits)

lemma getExternalInfo_news:
  "\<not> (wants_weather (toLowerCase message) \<and> cityMatch message \<noteq> None) \<Longrightarrow>
   \<not> wants_time (toLowerCase message) \<Longrightarrow> wants_news (toLowerCase message) \<Longrightarrow>
   getExternalInfo e message = (Some (fst (webSearch e message)), [Web_search message])"
  using webSearch_calls[of e message]
  by (auto simp: getExternalInfo_def Let_def case_prod_beta split: option.splits)

lemma getExternalInfo_none:
  "\<not> (wants_weather (toLowerCase message) \<and> cityMatch message \<noteq> None) \<Longrightarrow>
   \<not> wants_time (toLowerCase message) \<Longrightarrow> \<not> wants_news (toLowerCase message) \<Longrightarrow>
   getExternalInfo e message = (None, [])"
  by (auto simp: getExternalInfo_def Let_def split: option.splits)

text \<open>
  C5, as amended. \<^verbatim>\<open>getExternalInfo\<close> runs at most one lookup. It is the weather lookup
  when a weather keyword occurs and a city is found in the message; otherwise the date
  text when a time keyword occurs; otherwise the search when a news keyword occurs;
  otherwise nothing. A weather keyword without a city does not stop the later intents.
\<close>

theorem lookup_priority_needs_a_city:
  "lookup_kind (getExternalInfo e message) =
     (if wants_weather (toLowerCase message) \<and> cityMatch message \<noteq> None
        then Some Weather_intent
      else if wants_time (toLowerCase message) then Some Time_intent
      else if wants_news (toLowerCase message) then Some News_intent
      else None) \<and>
   length (snd (getExternalInfo e message)) \<le> 1 \<and>
   (\<forall>city. wants_weather (toLowerCase message) \<and> cityMatch message = Some city \<longrightarrow>
      snd (getExternalInfo e message) = [Weather_lookup (trim city)])"
proof (cases "wants_weather (toLowerCase message) \<and> cityMatch message \<noteq> None")
  case True
  then obtain city where c: "cityMatch message = Some city" by auto
  from True getExternalInfo_weather[OF _ c, of e] show ?thesis by (simp add: c)
next
  case nw: False
  show ?thesis
  proof (cases "wants_time (toLowerCase message)")
    case True
    from getExternalInfo_time[OF nw True, of e] nw True show ?thesis by auto
  next
    case nt: False
    show ?thesis
    proof (cases "wants_news (toLowerCase message)")
      case True
      from getExternalInfo_news[OF nw nt True, of e] nw nt True show ?thesis by auto
    next
      case False
      from getExternalInfo_none[OF nw nt False, of e] nw nt False show ?thesis by auto
    qed
  qed
qed

lemmas text_defs =
  wants_weather_def wants_time_def wants_news_def toLowerCase_def toLowerCase_char_def
  is_space_def is_city_char_def trim_def

theorem lookup_priority_needs_a_city_witness:
  \<open>wants_weather (toLowerCase paris_question) \<and> cityMatch paris_question = Some ''Paris'' \<and>
   lookup_kind (getExternalInfo env_lookups_down paris_question) = Some Weather_intent \<and>
   snd (getExternalInfo env_lookups_down paris_question) = [Weather_lookup ''Paris'']\<close>
  using lookup_priority_needs_a_city [of env_lookups_down paris_question]
  by (simp add: paris_question_def text_defs)

text \<open>
  C5 as stated fails: for \<open>''weather today''\<close> the first matching intent is weather, and
  the code answers with the date text.
\<close>

theorem weather_without_city_counterexample:
  "first_intent ''weather today'' = Some Weather_intent \<and>
   lookup_kind (getExternalInfo env_lookups_down ''weather today'') = Some Time_intent \<and>
   getExternalInfo env_lookups_down ''weather today'' =
     (Some ''Current date and time: Mon, 02 Nov 2026 12:00:00 GMT (UTC)'', [])"
  by (simp add: first_intent_def getExternalInfo_def text_defs env_lookups_down_def Let_def)



subsection \<open>Enrichment tasks that fail\<close>

lemma gather_external:
  "externalContext (fst (gather e m i d n)) = or_else (fst (getExternalInfo e m)) []"
  by (simp add: gather_def Let_def case_prod_beta)

lemma gather_image:
  "i \<noteq> [] \<Longrightarrow>
   imageContext (fst (gather e m (Some i) d n)) = fst (analyzeImage e i m)"
  by (cases "fst (analyzeImage e i m) = []") (simp_all add: gather_def Let_def case_prod_beta)

lemma gather_file:
  "d \<noteq> [] \<Longrightarrow> n \<noteq> [] \<Longrightarrow>
   fileContext (fst (gather e m i (Some d) (Some n))) = fst (extractTextFromFile e n d m)"
  by (cases "fst (extractTextFromFile e n d m) = []")
    (simp_all add: gather_def Let_def case_prod_beta)

lemma gather_no_attachment:
  "gather e m None None n =
     (\<lparr> imageContext = [], fileContext = [],
        externalContext = or_else (fst (getExternalInfo e m)) [] \<rparr>,
      snd (getExternalInfo e m))"
  by (simp add: gather_def Let_def case_prod_beta)

lemma paris_city:
  "wants_weather (toLowerCase paris_question) \<and> cityMatch paris_question = Some ''Paris'' \<and>
   trim ''Paris'' = ''Paris''"
  by (simp add: paris_question_def text_defs)

text \<open>What each helper returns when its remote call or its decoding fails.\<close>

lemma getWeather_threw:
  "geocoding e c = Inl err \<Longrightarrow> fst (getWeather e c) = ''Unable to fetch weather data''"
  by (simp add: getWeather_def getWeather_try_def)

lemma getWeather_forecast_threw:
  "geocoding e c = Inr (Some (place # rest)) \<Longrightarrow>
   forecast e (latitude place) (longitude place) = Inl err \<or>
   forecast e (latitude place) (longitude place) = Inr None \<Longrightarrow>
   fst (getWeather e c) = ''Unable to fetch weather data''"
  by (auto simp: getWeather_def getWeather_try_def)

lemma getWeather_no_results:
  "geocoding e c = Inr None \<or> geocoding e c = Inr (Some []) \<Longrightarrow>
   fst (getWeather e c) = ''Could not find weather data for '' @ c"
  by (auto simp: getWeather_def getWeather_try_def)

lemma webSearch_threw:
  "duckduckgo e q = Inl err \<Longrightarrow> fst (webSearch e q) = ''Unable to search''"
  by (simp add: webSearch_def webSearch_try_def)

lemma webSearch_nothing:
  "duckduckgo e q = Inr data \<Longrightarrow> \<not> truthy (AbstractText data) \<Longrightarrow>
   RelatedTopics data = None \<or> RelatedTopics data = Some [] \<or>
   (RelatedTopics data = Some (topic # rest) \<and> \<not> truthy topic) \<Longrightarrow>
   fst (webSearch e q) = ''No information found for: '' @ q"
  by (auto simp: webSearch_def webSearch_try_def)

lemma analyzeImage_threw:
  "atob e (base64_of i) = Inl err \<or>
   (atob e (base64_of i) = Inr bytes \<and> vision e bytes (vision_prompt q) = Inl err) \<Longrightarrow>
   fst (analyzeImage e i q) =
     ''Image uploaded (analysis unavailable: '' @ message_or ''unknown error'' err @ '').''"
  by (auto simp: analyzeImage_def analyzeImage_try_def)

lemma analyzeImage_null:
  "atob e (base64_of i) = Inr bytes \<Longrightarrow> vision e bytes (vision_prompt q) = Inr AI_null \<Longrightarrow>
   fst (analyzeImage e i q) =
     ''Image uploaded (analysis unavailable: Cannot read properties of null (reading 'description')).''"
  by (simp add: analyzeImage_def analyzeImage_try_def TypeError_def)

lemma extension_kinds:
  "x \<in> set text_extensions \<Longrightarrow> x \<notin> set image_extensions"
  "''pdf'' \<notin> set image_extensions" "''pdf'' \<notin> set text_extensions"
  by (auto simp: text_extensions_def image_extensions_def)

lemma extract_text_threw:
  \<open>extension_of n \<in> set text_extensions \<Longrightarrow> atob e (base64_of d) = Inl err \<Longrightarrow>
   fst (extractTextFromFile e n d q) =
     page_sign @ '' File "'' @ n @
     ''" received. Please describe what you'd like to know about it.''\<close>
  by (simp add: extractTextFromFile_def extractTextFromFile_try_def Let_def extension_kinds)

lemma extract_pdf_threw:
  \<open>extension_of n = ''pdf'' \<Longrightarrow> atob e (base64_of d) = Inl err \<Longrightarrow>
   fst (extractTextFromFile e n d q) =
     page_sign @ '' PDF file "'' @ n @
     ''" uploaded. Please describe what you'd like to know about it.''\<close>
  by (simp add: extractTextFromFile_def extractTextFromFile_try_def Let_def extension_kinds
      pdf_text_def)

lemma extract_image_file:
  \<open>extension_of n \<in> set image_extensions \<Longrightarrow>
   fst (extractTextFromFile e n d q) =
     camera_sign @ '' Image file "'' @ n @ ''" analysis:'' @ nl @ nl @
     fst (analyzeImage e d q)\<close>
  by (simp add: extractTextFromFile_def extractTextFromFile_try_def Let_def case_prod_beta)

text \<open>
  C3, as amended. A failed enrichment task does not fail the turn, and its field holds the
  task's fallback text, not the empty text.
  \<^item> Weather lookup: if the geocoding or the forecast request throws, or the forecast has
    no \<^verbatim>\<open>current\<close> object, \<open>''Unable to fetch weather data''\<close>; if the geocoding answer
    has no results, \<open>''Could not find weather data for ''\<close> and the city.
  \<^item> Search: if the request throws, \<open>''Unable to search''\<close>; if the answer holds no text,
    \<open>''No information found for: ''\<close> and the message.
  \<^item> Image analysis: if the decoding or the vision model throws, or the model answers
    \<^verbatim>\<open>null\<close>, the \<open>''Image uploaded (analysis unavailable: ...).''\<close> text with the message
    of the thrown value.
  \<^item> File extraction: if the decoding throws, the \<open>received\<close> text for a text file, the
    \<open>uploaded\<close> text for a PDF, and the image label followed by the image text for an
    image file.
  For the Paris question without attachments exactly one lookup is issued, the weather
  lookup for Paris, and if the geocoding request throws, the external context is
  \<open>''Unable to fetch weather data''\<close>. Whatever the tasks did, a turn whose storage and
  generation work returns the reply.
\<close>

theorem failed_enrichment_leaves_fallback_text:
  \<open>(wants_weather (toLowerCase message) \<and> cityMatch message = Some city \<longrightarrow>
      (geocoding e (trim city) = Inl err \<longrightarrow>
         externalContext (fst (gather e message image' fileData fileName)) =
           ''Unable to fetch weather data'') \<and>
      (geocoding e (trim city) = Inr (Some (place # places)) \<and>
       (forecast e (latitude place) (longitude place) = Inl err \<or>
        forecast e (latitude place) (longitude place) = Inr None) \<longrightarrow>
         externalContext (fst (gather e message image' fileData fileName)) =
           ''Unable to fetch weather data'') \<and>
      (geocoding e (trim city) = Inr None \<or> geocoding e (trim city) = Inr (Some []) \<longrightarrow>
         externalContext (fst (gather e message image' fileData fileName)) =
           ''Could not find weather data for '' @ trim city)) \<and>
   (\<not> (wants_weather (toLowerCase message) \<and> cityMatch message \<noteq> None) \<and>
    \<not> wants_time (toLowerCase message) \<and> wants_news (toLowerCase message) \<longrightarrow>
      (duckduckgo e message = Inl err \<longrightarrow>
         externalContext (fst (gather e message image' fileData fileName)) =
           ''Unable to search'') \<and>
      (duckduckgo e message = Inr data \<and> \<not> truthy (AbstractText data) \<and>
       (RelatedTopics data = None \<or> RelatedTopics data = Some [] \<or>
        (RelatedTopics data = Some (topic # topics) \<and> \<not> truthy topic)) \<longrightarrow>
         externalContext (fst (gather e message image' fileData fileName)) =
           ''No information found for: '' @ message)) \<and>
   (image' = Some i \<and> i \<noteq> [] \<longrightarrow>
      (atob e (base64_of i) = Inl err \<or>
       (atob e (base64_of i) = Inr bytes \<and> vision e bytes (vision_prompt message) = Inl err) \<longrightarrow>
         imageContext (fst (gather e message image' fileData fileName)) =
           ''Image uploaded (analysis unavailable: '' @ message_or ''unknown error'' err @
           '').'') \<and>
      (atob e (base64_of i) = Inr bytes \<and>
       vision e bytes (vision_prompt message) = Inr AI_null \<longrightarrow>
         imageContext (fst (gather e message image' fileData fileName)) =
           ''Image uploaded (analysis unavailable: Cannot read properties of null (reading 'description')).'')) \<and>
   (fileData = Some d \<and> d \<noteq> [] \<and> fileName = Some n \<and> n \<noteq> [] \<and>
    atob e (base64_of d) = Inl err \<longrightarrow>
      (extension_of n \<in> set text_extensions \<longrightarrow>
         fileContext (fst (gather e message image' fileData fileName)) =
           page_sign @ '' File "'' @ n @
           ''" received. Please describe what you'd like to know about it.'') \<and>
      (extension_of n = ''pdf'' \<longrightarrow>
         fileContext (fst (gather e message image' fileData fileName)) =
           page_sign @ '' PDF file "'' @ n @
           ''" uploaded. Please describe what you'd like to know about it.'') \<and>
      (extension_of n \<in> set image_extensions \<longrightarrow>
         fileContext (fst (gather e message image' fileData fileName)) =
           camera_sign @ '' Image file "'' @ n @ ''" analysis:'' @ nl @ nl @
           ''Image uploaded (analysis unavailable: '' @ message_or ''unknown error'' err @
           '').'')) \<and>
   snd (gather e paris_question None None fileName) = [Weather_lookup ''Paris''] \<and>
   (geocoding e ''Paris'' = Inl err \<longrightarrow>
      fst (gather e paris_question None None fileName) =
        \<lparr> imageContext = [], fileContext = [],
          externalContext = ''Unable to fetch weather data'' \<rparr>) \<and>
   (turn_storage_up e \<and>
    (truthy (body_message body) \<or> truthy (body_image body) \<or> truthy (body_fileData body)) \<and>
    (\<forall>request. Chat_run request \<in> set (snd (snd (handleChat e body w))) \<longrightarrow>
       generate e request = Inr reply) \<longrightarrow>
      fst (snd (handleChat e body w)) = Response_200 reply (body_sessionId body))\<close>
proof -
  let ?b = "fst (gather e message image' fileData fileName)"
  have weather: "wants_weather (toLowerCase message) \<and> cityMatch message = Some city \<longrightarrow>
      externalContext ?b = fst (getWeather e (trim city))"
    by (cases "fst (getWeather e (trim city)) = []")
      (simp_all add: gather_external getExternalInfo_weather)
  have news: "\<not> (wants_weather (toLowerCase message) \<and> cityMatch message \<noteq> None) \<and>
    \<not> wants_time (toLowerCase message) \<and> wants_news (toLowerCase message) \<longrightarrow>
      externalContext ?b = fst (webSearch e message)"
    by (cases "fst (webSearch e message) = []")
      (simp_all add: gather_external getExternalInfo_news)
  have img: "image' = Some i \<and> i \<noteq> [] \<longrightarrow> imageContext ?b = fst (analyzeImage e i message)"
    using gather_image[of i e message fileData fileName] by auto
  have fil: "fileData = Some d \<and> d \<noteq> [] \<and> fileName = Some n \<and> n \<noteq> [] \<longrightarrow>
      fileContext ?b = fst (extractTextFromFile e n d message)"
    using gather_file[of d n e message image'] by auto
  have paris1: "snd (gather e paris_question None None fileName) = [Weather_lookup ''Paris'']"
    using paris_city by (simp add: gather_no_attachment getExternalInfo_weather)
  have paris2: "geocoding e ''Paris'' = Inl err \<longrightarrow>
      fst (gather e paris_question None None fileName) =
        \<lparr> imageContext = [], fileContext = [],
          externalContext = ''Unable to fetch weather data'' \<rparr>"
    using paris_city
    by (simp add: gather_no_attachment getExternalInfo_weather getWeather_threw)
  have turn: "turn_storage_up e \<and>
    (truthy (body_message body) \<or> truthy (body_image body) \<or> truthy (body_fileData body)) \<and>
    (\<forall>request. Chat_run request \<in> set (snd (snd (handleChat e body w))) \<longrightarrow>
       generate e request = Inr reply) \<longrightarrow>
      fst (snd (handleChat e body w)) = Response_200 reply (body_sessionId body)"
    using turn_succeeds[of e body w reply] by blast
  have w1: "geocoding e (trim city) = Inl err \<longrightarrow>
      fst (getWeather e (trim city)) = ''Unable to fetch weather data''"
    by (simp add: getWeather_threw)
  have w2: "geocoding e (trim city) = Inr (Some (place # places)) \<and>
       (forecast e (latitude place) (longitude place) = Inl err \<or>
        forecast e (latitude place) (longitude place) = Inr None) \<longrightarrow>
      fst (getWeather e (trim city)) = ''Unable to fetch weather data''"
    using getWeather_forecast_threw[of e "trim city" place places err] by blast
  have w3: "geocoding e (trim city) = Inr None \<or> geocoding e (trim city) = Inr (Some []) \<longrightarrow>
      fst (getWeather e (trim city)) = ''Could not find weather data for '' @ trim city"
    using getWeather_no_results[of e "trim city"] by blast
  have s1: "duckduckgo e message = Inl err \<longrightarrow> fst (webSearch e message) = ''Unable to search''"
    by (simp add: webSearch_threw)
  have s2: "duckduckgo e message = Inr data \<and> \<not> truthy (AbstractText data) \<and>
       (RelatedTopics data = None \<or> RelatedTopics data = Some [] \<or>
        (RelatedTopics data = Some (topic # topics) \<and> \<not> truthy topic)) \<longrightarrow>
      fst (webSearch e message) = ''No information found for: '' @ message"
    using webSearch_nothing[of e message data topic topics] by blast
  have i1: "atob e (base64_of i) = Inl err \<or>
       (atob e (base64_of i) = Inr bytes \<and> vision e bytes (vision_prompt message) = Inl err) \<longrightarrow>
      fst (analyzeImage e i message) =
        ''Image uploaded (analysis unavailable: '' @ message_or ''unknown error'' err @ '').''"
    using analyzeImage_threw[of e i err bytes message] by blast
  have i2: "atob e (base64_of i) = Inr bytes \<and>
       vision e bytes (vision_prompt message) = Inr AI_null \<longrightarrow>
      fst (analyzeImage e i message) =
        ''Image uploaded (analysis unavailable: Cannot read properties of null (reading 'description')).''"
    using analyzeImage_null[of e i bytes message] by blast
  have f1: \<open>atob e (base64_of d) = Inl err \<longrightarrow> extension_of n \<in> set text_extensions \<longrightarrow>
      fst (extractTextFromFile e n d message) =
        page_sign @ '' File "'' @ n @
        ''" received. Please describe what you'd like to know about it.''\<close>
    using extract_text_threw[of n e d err message] by blast
  have f2: \<open>atob e (base64_of d) = Inl err \<longrightarrow> extension_of n = ''pdf'' \<longrightarrow>
      fst (extractTextFromFile e n d message) =
        page_sign @ '' PDF file "'' @ n @
        ''" uploaded. Please describe what you'd like to know about it.''\<close>
    using extract_pdf_threw[of n e d err message] by blast
  have f3: \<open>atob e (base64_of d) = Inl err \<longrightarrow> extension_of n \<in> set image_extensions \<longrightarrow>
      fst (extractTextFromFile e n d message) =
        camera_sign @ '' Image file "'' @ n @ ''" analysis:'' @ nl @ nl @
        ''Image uploaded (analysis unavailable: '' @ message_or ''unknown error'' err @
        '').''\<close>
    using extract_image_file[of n e d message] analyzeImage_threw[of e d err bytes message]
    by simp
  have c1: "wants_weather (toLowerCase message) \<and> cityMatch message = Some city \<longrightarrow>
      (geocoding e (trim city) = Inl err \<longrightarrow>
         externalContext ?b = ''Unable to fetch weather data'') \<and>
      (geocoding e (trim city) = Inr (Some (place # places)) \<and>
       (forecast e (latitude place) (longitude place) = Inl err \<or>
        forecast e (latitude place) (longitude place) = Inr None) \<longrightarrow>
         externalContext ?b = ''Unable to fetch weather data'') \<and>
      (geocoding e (trim city) = Inr None \<or> geocoding e (trim city) = Inr (Some []) \<longrightarrow>
         externalContext ?b = ''Could not find weather data for '' @ trim city)"
  proof (intro impI conjI)
    assume r: "wants_weather (toLowerCase message) \<and> cityMatch message = Some city"
    assume "geocoding e (trim city) = Inl err"
    with weather r w1 show "externalContext ?b = ''Unable to fetch weather data''" by simp
  next
    assume r: "wants_weather (toLowerCase message) \<and> cityMatch message = Some city"
    assume "geocoding e (trim city) = Inr (Some (place # places)) \<and>
       (forecast e (latitude place) (longitude place) = Inl err \<or>
        forecast e (latitude place) (longitude place) = Inr None)"
    with w2 have "fst (getWeather e (trim city)) = ''Unable to fetch weather data''" by blast
    with weather r show "externalContext ?b = ''Unable to fetch weather data''" by simp
  next
    assume r: "wants_weather (toLowerCase message) \<and> cityMatch message = Some city"
    assume "geocoding e (trim city) = Inr None \<or> geocoding e (trim city) = Inr (Some [])"
    with w3 have "fst (getWeather e (trim city)) = ''Could not find weather data for '' @ trim city"
      by blast
    with weather r show "externalContext ?b = ''Could not find weather data for '' @ trim city"
      by simp
  qed
  have c2: "\<not> (wants_weather (toLowerCase message) \<and> cityMatch message \<noteq> None) \<and>
    \<not> wants_time (toLowerCase message) \<and> wants_news (toLowerCase message) \<longrightarrow>
      (duckduckgo e message = Inl err \<longrightarrow> externalContext ?b = ''Unable to search'') \<and>
      (duckduckgo e message = Inr data \<and> \<not> truthy (AbstractText data) \<and>
       (RelatedTopics data = None \<or> RelatedTopics data = Some [] \<or>
        (RelatedTopics data = Some (topic # topics) \<and> \<not> truthy topic)) \<longrightarrow>
         externalContext ?b = ''No information found for: '' @ message)"
  proof (intro impI conjI)
    assume r: "\<not> (wants_weather (toLowerCase message) \<and> cityMatch message \<noteq> None) \<and>
      \<not> wants_time (toLowerCase message) \<and> wants_news (toLowerCase message)"
    assume "duckduckgo e message = Inl err"
    with s1 have "fst (webSearch e message) = ''Unable to search''" by blast
    with news r show "externalContext ?b = ''Unable to search''" by simp
  next
    assume r: "\<not> (wants_weather (toLowerCase message) \<and> cityMatch message \<noteq> None) \<and>
      \<not> wants_time (toLowerCase message) \<and> wants_news (toLowerCase message)"
    assume "duckduckgo e message = Inr data \<and> \<not> truthy (AbstractText data) \<and>
       (RelatedTopics data = None \<or> RelatedTopics data = Some [] \<or>
        (RelatedTopics data = Some (topic # topics) \<and> \<not> truthy topic))"
    with s2 have "fst (webSearch e message) = ''No information found for: '' @ message" by blast
    with news r show "externalContext ?b = ''No information found for: '' @ message" by simp
  qed
  have c3: "image' = Some i \<and> i \<noteq> [] \<longrightarrow>
      (atob e (base64_of i) = Inl err \<or>
       (atob e (base64_of i) = Inr bytes \<and> vision e bytes (vision_prompt message) = Inl err) \<longrightarrow>
         imageContext ?b =
           ''Image uploaded (analysis unavailable: '' @ message_or ''unknown error'' err @
           '').'') \<and>
      (atob e (base64_of i) = Inr bytes \<and>
       vision e bytes (vision_prompt message) = Inr AI_null \<longrightarrow>
         imageContext ?b =
           ''Image uploaded (analysis unavailable: Cannot read properties of null (reading 'description')).'')"
  proof (intro impI conjI)
    assume r: "image' = Some i \<and> i \<noteq> []"
    assume "atob e (base64_of i) = Inl err \<or>
       (atob e (base64_of i) = Inr bytes \<and> vision e bytes (vision_prompt message) = Inl err)"
    with i1 have "fst (analyzeImage e i message) =
        ''Image uploaded (analysis unavailable: '' @ message_or ''unknown error'' err @ '').''"
      by blast
    with img r show "imageContext ?b =
           ''Image uploaded (analysis unavailable: '' @ message_or ''unknown error'' err @
           '').''" by simp
  next
    assume r: "image' = Some i \<and> i \<noteq> []"
    assume "atob e (base64_of i) = Inr bytes \<and>
       vision e bytes (vision_prompt message) = Inr AI_null"
    with i2 have "fst (analyzeImage e i message) =
        ''Image uploaded (analysis unavailable: Cannot read properties of null (reading 'description')).''"
      by blast
    with img r show "imageContext ?b =
           ''Image uploaded (analysis unavailable: Cannot read properties of null (reading 'description')).''"
      by simp
  qed
  have c4: \<open>fileData = Some d \<and> d \<noteq> [] \<and> fileName = Some n \<and> n \<noteq> [] \<and>
    atob e (base64_of d) = Inl err \<longrightarrow>
      (extension_of n \<in> set text_extensions \<longrightarrow>
         fileContext ?b =
           page_sign @ '' File "'' @ n @
           ''" received. Please describe what you'd like to know about it.'') \<and>
      (extension_of n = ''pdf'' \<longrightarrow>
         fileContext ?b =
           page_sign @ '' PDF file "'' @ n @
           ''" uploaded. Please describe what you'd like to know about it.'') \<and>
      (extension_of n \<in> set image_extensions \<longrightarrow>
         fileContext ?b =
           camera_sign @ '' Image file "'' @ n @ ''" analysis:'' @ nl @ nl @
           ''Image uploaded (analysis unavailable: '' @ message_or ''unknown error'' err @
           '').'')\<close>
  proof (intro impI conjI)
    assume r: "fileData = Some d \<and> d \<noteq> [] \<and> fileName = Some n \<and> n \<noteq> [] \<and>
      atob e (base64_of d) = Inl err"
    assume x: "extension_of n \<in> set text_extensions"
    from fil r have "fileContext ?b = fst (extractTextFromFile e n d message)" by blast
    also from f1 r x have \<open>\<dots> = page_sign @ '' File "'' @ n @
           ''" received. Please describe what you'd like to know about it.''\<close> by blast
    finally show \<open>fileContext ?b =
           page_sign @ '' File "'' @ n @
           ''" received. Please describe what you'd like to know about it.''\<close> .
  next
    assume r: "fileData = Some d \<and> d \<noteq> [] \<and> fileName = Some n \<and> n \<noteq> [] \<and>
      atob e (base64_of d) = Inl err"
    assume x: "extension_of n = ''pdf''"
    from fil r have "fileContext ?b = fst (extractTextFromFile e n d message)" by blast
    also from f2 r x have \<open>\<dots> = page_sign @ '' PDF file "'' @ n @
           ''" uploaded. Please describe what you'd like to know about it.''\<close> by blast
    finally show \<open>fileContext ?b =
           page_sign @ '' PDF file "'' @ n @
           ''" uploaded. Please describe what you'd like to know about it.''\<close> .
  next
    assume r: "fileData = Some d \<and> d \<noteq> [] \<and> fileName = Some n \<and> n \<noteq> [] \<and>
      atob e (base64_of d) = Inl err"
    assume x: "extension_of n \<in> set image_extensions"
    from fil r have "fileContext ?b = fst (extractTextFromFile e n d message)" by blast
    also from f3 r x have \<open>\<dots> = camera_sign @ '' Image file "'' @ n @ ''" analysis:'' @ nl @ nl @
           ''Image uploaded (analysis unavailable: '' @ message_or ''unknown error'' err @
           '').''\<close> by blast
    finally show \<open>fileContext ?b =
           camera_sign @ '' Image file "'' @ n @ ''" analysis:'' @ nl @ nl @
           ''Image uploaded (analysis unavailable: '' @ message_or ''unknown error'' err @
           '').''\<close> .
  qed
  show ?thesis
    by (intro conjI) (rule c1, rule c2, rule c3, rule c4, rule paris1, rule paris2, rule turn)
qed

text \<open>
  C3 as stated fails: the weather lookup for the Paris question throws, and the external
  context is not empty.
\<close>

theorem failed_weather_lookup_counterexample:
  "geocoding env_lookups_down ''Paris'' = Inl (Error ''fetch failed'') \<and>
   gather env_lookups_down paris_question None None None =
     (\<lparr> imageContext = [], fileContext = [],
        externalContext = ''Unable to fetch weather data'' \<rparr>,
      [Weather_lookup ''Paris'']) \<and>
   externalContext (fst (gather env_lookups_down paris_question None None None)) \<noteq> []"
  by (simp add: gather_def getExternalInfo_def getWeather_def getWeather_try_def Let_def
      paris_question_def text_defs env_lookups_down_def geocoding_down_def)

theorem failed_enrichment_leaves_fallback_text_witness:
  \<open>wants_weather (toLowerCase paris_question) \<and> cityMatch paris_question = Some ''Paris'' \<and>
   geocoding env_lookups_down (trim ''Paris'') = Inl (Error ''fetch failed'') \<and>
   gather env_lookups_down paris_question None None None =
     (\<lparr> imageContext = [], fileContext = [],
        externalContext = ''Unable to fetch weather data'' \<rparr>,
      [Weather_lookup ''Paris'']) \<and>
   wants_news (toLowerCase ''latest news'') \<and>
   duckduckgo env_lookups_down ''latest news'' = Inl (Error ''fetch failed'') \<and>
   externalContext (fst (gather env_lookups_down ''latest news'' None None None)) =
     ''Unable to search'' \<and>
   picture \<noteq> [] \<and>
   atob env_lookups_down (base64_of picture) = Inr ''iVBORw0KGgo='' \<and>
   vision env_lookups_down ''iVBORw0KGgo='' (vision_prompt ''Hello'') =
     Inl (Error ''model unavailable'') \<and>
   imageContext (fst (gather env_lookups_down ''Hello'' (Some picture) None None)) =
     ''Image uploaded (analysis unavailable: model unavailable).'' \<and>
   notes_data \<noteq> [] \<and> extension_of ''notes.txt'' \<in> set text_extensions \<and>
   atob env_decode_down (base64_of notes_data) = Inl (Error ''Invalid character'') \<and>
   fileContext
     (fst (gather env_decode_down ''Hello'' None (Some notes_data) (Some ''notes.txt''))) =
     page_sign @ '' File "notes.txt" received. Please describe what you'd like to know about it.'' \<and>
   turn_storage_up env_lookups_down \<and> truthy (body_message paris_body) \<and>
   fst (snd (handleChat env_lookups_down paris_body new_world)) =
     Response_200 ''Hi there'' ''s1''\<close>
proof -
  have g: "\<forall>request. generate env_lookups_down request = Inr ''Hi there''"
    by (simp add: generate_def env_lookups_down_def chat_hi_def)
  have u: "turn_storage_up env_lookups_down"
    by (simp add: turn_storage_up_def history_storage_up_def storage_up_def
        env_lookups_down_def amb_up_def io_up_def)
  have geo: "geocoding env_lookups_down (trim ''Paris'') = Inl (Error ''fetch failed'')"
    by (simp add: env_lookups_down_def geocoding_down_def)
  have geo': "geocoding env_lookups_down ''Paris'' = Inl (Error ''fetch failed'')"
    by (simp add: env_lookups_down_def geocoding_down_def)
  have news: "\<not> (wants_weather (toLowerCase ''latest news'') \<and> cityMatch ''latest news'' \<noteq> None) \<and>
      \<not> wants_time (toLowerCase ''latest news'') \<and> wants_news (toLowerCase ''latest news'')"
    by (simp add: text_defs)
  have ddg: "duckduckgo env_lookups_down ''latest news'' = Inl (Error ''fetch failed'')"
    by (simp add: env_lookups_down_def duckduckgo_down_def)
  have p: "picture \<noteq> []" by (simp add: picture_def)
  have a: "atob env_lookups_down (base64_of picture) = Inr ''iVBORw0KGgo=''"
    by (simp add: env_lookups_down_def atob_same_def base64_of_def picture_def)
  have v: "vision env_lookups_down ''iVBORw0KGgo='' (vision_prompt ''Hello'') =
      Inl (Error ''model unavailable'')"
    by (simp add: env_lookups_down_def vision_down_def)
  have nd: "notes_data \<noteq> []" by (simp add: notes_data_def)
  have x: "extension_of ''notes.txt'' \<in> set text_extensions"
    by (simp add: extension_of_def text_extensions_def toLowerCase_def toLowerCase_char_def)
  have ad: "atob env_decode_down (base64_of notes_data) = Inl (Error ''Invalid character'')"
    by (simp add: env_decode_down_def atob_down_def)
  have t: "truthy (body_message paris_body)"
    by (simp add: paris_body_def paris_question_def)
  have s: "body_sessionId paris_body = ''s1''" by (simp add: paris_body_def)
  note weather = failed_enrichment_leaves_fallback_text
      [where message = paris_question and city = "''Paris''" and e = env_lookups_down
         and err = "Error ''fetch failed''" and image' = None and fileData = None
         and fileName = None and body = paris_body and w = new_world
         and reply = "''Hi there''"]
  note search = failed_enrichment_leaves_fallback_text
      [where message = "''latest news''" and e = env_lookups_down
         and err = "Error ''fetch failed''" and image' = None and fileData = None
         and fileName = None]
  note image = failed_enrichment_leaves_fallback_text
      [where message = "''Hello''" and e = env_lookups_down
         and err = "Error ''model unavailable''" and image' = "Some picture"
         and fileData = None and fileName = None and i = picture
         and bytes = "''iVBORw0KGgo=''"]
  note file_task = failed_enrichment_leaves_fallback_text
      [where message = "''Hello''" and e = env_decode_down
         and err = "Error ''Invalid character''" and image' = None
         and fileData = "Some notes_data" and fileName = "Some ''notes.txt''"
         and d = notes_data and n = "''notes.txt''"]
  from weather geo' have
    c1: "gather env_lookups_down paris_question None None None =
     (\<lparr> imageContext = [], fileContext = [],
        externalContext = ''Unable to fetch weather data'' \<rparr>,
      [Weather_lookup ''Paris''])"
    by (simp add: prod_eq_iff)
  from search news ddg have
    c2: "externalContext (fst (gather env_lookups_down ''latest news'' None None None)) =
     ''Unable to search''"
    by blast
  from image p a v have
    c3: "imageContext (fst (gather env_lookups_down ''Hello'' (Some picture) None None)) =
     ''Image uploaded (analysis unavailable: model unavailable).''"
    by simp
  from file_task nd x ad have
    c4: \<open>fileContext
     (fst (gather env_decode_down ''Hello'' None (Some notes_data) (Some ''notes.txt''))) =
     page_sign @ '' File "notes.txt" received. Please describe what you'd like to know about it.''\<close>
    by simp
  from weather u t g have
    c5: "fst (snd (handleChat env_lookups_down paris_body new_world)) =
     Response_200 ''Hi there'' ''s1''"
    by (simp add: s)
  from paris_city geo c1 news ddg c2 p a v c3 nd x ad c4 u t c5 show ?thesis
    by (intro conjI) simp_all
qed

subsection \<open>The preview update at the end of a turn\<close>

lemma coordinateChat_ok:
  assumes "coordinateChat e m sid i d n w = (w2, Inr reply, calls)"
  shows "directory w2 = directory w \<and>
         history_of (histories w2 sid) =
           slice_last 50 (history_of (histories w sid) @
             [\<lparr> role = ''user'', content = userMessage m (fst (gather e m i d n)),
                timestamp = clock (user_append e) 0 \<rparr>,
              \<lparr> role = ''assistant'', content = reply,
                timestamp = clock (reply_append e) 0 \<rparr>])"
proof -
  obtain w1 r where f: "history_fetch (history_read e) GET_messages sid w = (w1, r)"
    by (cases "history_fetch (history_read e) GET_messages sid w")
  from assms f obtain resp where r: "r = Inr resp"
    by (cases r) (auto simp: coordinateChat_read_fails)
  note f = f[unfolded r]
  from read_history[OF f] have u: "logs_unchanged w w1" and dw: "directory w1 = directory w"
    by simp_all
  let ?req = "turn_request e m i d n (messages_of resp)"
  let ?user = "userMessage m (fst (gather e m i d n))"
  from assms f obtain reply0 where g: "generate e ?req = Inr reply0"
    by (cases "generate e ?req") (auto simp: coordinateChat_generate_fails)
  from coordinateChat_generate_ok[OF f g] assms
  have "commit_turn e sid ?user reply0 w1 = (w2, Inr reply)"
    by (metis prod.collapse prod.inject)
  from commit_turn_ok[OF this] u dw show ?thesis
    by (simp add: logs_unchanged_def)
qed

lemma update_read_fails:
  "sessions st = [] \<Longrightarrow> io amb (Get ''sessions'') = Some err \<Longrightarrow>
   ChatSessions_fetch amb req st = (st, Inl err)"
  by (simp add: ChatSessions_fetch_def load_sessions_def)

lemma update_write_fails:
  assumes "io amb (Get ''sessions'') = None" and "io amb (Put ''sessions'') = Some err"
    and "body_id b = Some i" and "i \<in> session_id ` set (summaries st)"
  shows "snd (ChatSessions_fetch amb (PUT_sessions b) st) = Inl err"
proof -
  from assms(3,4) have "\<exists>s \<in> set (summaries st). Some (session_id s) = body_id b" by auto
  from findIndex_exists[of "summaries st" "\<lambda>s. Some (session_id s) = body_id b", OF this]
  obtain k where "findIndex (\<lambda>s. Some (session_id s) = body_id b) (summaries st) = Some k" ..
  with assms(1,2) show ?thesis
    by (simp add: ChatSessions_fetch_def load_sessions_up put_sessions_def Let_def)
qed

lemma update_unknown_id:
  assumes "io amb (Get ''sessions'') = None" and "body_id b = Some i"
    and "i \<notin> session_id ` set (summaries st)"
  shows "snd (ChatSessions_fetch amb (PUT_sessions b) st) = Inr Session_not_found"
proof -
  from assms(2,3) have "findIndex (\<lambda>s. Some (session_id s) = body_id b) (summaries st) = None"
    by (auto simp: findIndex_None)
  with assms(1) show ?thesis
    by (simp add: ChatSessions_fetch_def load_sessions_up)
qed

text \<open>
  C4, as amended. Take a turn whose generation and appends succeeded with a reply. If the
  preview update only fails to find the session (the directory answers not-found), the
  caller still receives the reply. If the update throws, because the directory's storage
  rejects its read or its write, the turn answers that error instead of the reply. In
  every case the history already ends with the user turn and the reply.
\<close>

theorem reply_returned_unless_preview_update_throws:
  assumes "truthy (body_message body) \<or> truthy (body_image body) \<or> truthy (body_fileData body)"
    and "coordinateChat e (or_else (body_message body) []) (body_sessionId body)
           (body_image body) (body_fileData body) (body_fileName body) w =
         (w1, Inr reply, calls)"
  shows "(io (preview_update e) (Get ''sessions'') = None \<and>
          body_sessionId body \<notin> session_id ` set (summaries (directory w)) \<longrightarrow>
            fst (snd (handleChat e body w)) = Response_200 reply (body_sessionId body)) \<and>
         (sessions (directory w) = [] \<and> io (preview_update e) (Get ''sessions'') = Some err \<longrightarrow>
            fst (snd (handleChat e body w)) = Response_500 (message_or ''Unknown error'' err)) \<and>
         (io (preview_update e) (Get ''sessions'') = None \<and>
          io (preview_update e) (Put ''sessions'') = Some err \<and>
          body_sessionId body \<in> session_id ` set (summaries (directory w)) \<longrightarrow>
            fst (snd (handleChat e body w)) = Response_500 (message_or ''Unknown error'' err)) \<and>
         history_of (histories (fst (handleChat e body w)) (body_sessionId body)) =
           slice_last 50 (history_of (histories w (body_sessionId body)) @
             [\<lparr> role = ''user'',
                content = userMessage (or_else (body_message body) [])
                  (fst (gather e (or_else (body_message body) []) (body_image body)
                     (body_fileData body) (body_fileName body))),
                timestamp = clock (user_append e) 0 \<rparr>,
              \<lparr> role = ''assistant'', content = reply,
                timestamp = clock (reply_append e) 0 \<rparr>])"
proof -
  let ?b = "\<lparr> body_id = Some (body_sessionId body), body_name = None,
     body_lastMessage = Some (or_else (body_message body) ''Sent an attachment'') \<rparr>"
  from coordinateChat_ok[OF assms(2)] have d: "directory w1 = directory w"
    and h: "history_of (histories w1 (body_sessionId body)) =
           slice_last 50 (history_of (histories w (body_sessionId body)) @
             [\<lparr> role = ''user'',
                content = userMessage (or_else (body_message body) [])
                  (fst (gather e (or_else (body_message body) []) (body_image body)
                     (body_fileData body) (body_fileName body))),
                timestamp = clock (user_append e) 0 \<rparr>,
              \<lparr> role = ''assistant'', content = reply,
                timestamp = clock (reply_append e) 0 \<rparr>])"
    by simp_all
  note t = handleChat_turn_ok[OF assms, unfolded d]
  have "io (preview_update e) (Get ''sessions'') = None \<and>
          body_sessionId body \<notin> session_id ` set (summaries (directory w)) \<longrightarrow>
            fst (snd (handleChat e body w)) = Response_200 reply (body_sessionId body)"
    using update_unknown_id[of "preview_update e" ?b "body_sessionId body" "directory w"]
    by (simp add: t)
  moreover
  have "sessions (directory w) = [] \<and> io (preview_update e) (Get ''sessions'') = Some err \<longrightarrow>
            fst (snd (handleChat e body w)) = Response_500 (message_or ''Unknown error'' err)"
    using update_read_fails[of "directory w" "preview_update e" err "PUT_sessions ?b"]
    by (simp add: t)
  moreover
  have "io (preview_update e) (Get ''sessions'') = None \<and>
          io (preview_update e) (Put ''sessions'') = Some err \<and>
          body_sessionId body \<in> session_id ` set (summaries (directory w)) \<longrightarrow>
            fst (snd (handleChat e body w)) = Response_500 (message_or ''Unknown error'' err)"
    using update_write_fails[of "preview_update e" err ?b "body_sessionId body" "directory w"]
    by (simp add: t)
  moreover
  have "histories (fst (handleChat e body w)) = histories w1" by (simp add: t)
  ultimately show ?thesis using h by simp
qed

text \<open>
  C4 as stated fails: generation and both appends succeed, the directory's storage is
  down, and the caller receives an error instead of the reply.
\<close>

theorem preview_update_failure_counterexample:
  "generate env_directory_down (turn_request env_directory_down ''Hello'' None None None []) =
     Inr ''Hi there'' \<and>
   map content
     (history_of (histories (fst (handleChat env_directory_down hello_body new_world)) ''s1'')) =
     [''Hello'', ''Hi there''] \<and>
   io (preview_update env_directory_down) (Get ''sessions'') =
     Some (Error ''storage unavailable'') \<and>
   fst (snd (handleChat env_directory_down hello_body new_world)) =
     Response_500 ''storage unavailable''"
  by (simp add: turn_defs example_defs turn_request_def history_of_def reply_of.simps)


theorem reply_returned_unless_preview_update_throws_witness:
  "truthy (body_message hello_body) \<and>
   fst (snd (turn_of env_lookups_down hello_body new_world)) = Inr ''Hi there'' \<and>
   io (preview_update env_lookups_down) (Get ''sessions'') = None \<and>
   body_sessionId hello_body \<notin> session_id ` set (summaries (directory new_world)) \<and>
   fst (snd (handleChat env_lookups_down hello_body new_world)) =
     Response_200 ''Hi there'' ''s1''"
proof -
  have r: "fst (snd (turn_of env_lookups_down hello_body new_world)) = Inr ''Hi there''"
    by (simp add: turn_defs example_defs reply_of.simps)
  then have t: "turn_of env_lookups_down hello_body new_world =
      (fst (turn_of env_lookups_down hello_body new_world), Inr ''Hi there'',
       snd (snd (turn_of env_lookups_down hello_body new_world)))"
    by (metis prod.collapse)
  have v: "truthy (body_message hello_body) \<or> truthy (body_image hello_body) \<or>
      truthy (body_fileData hello_body)"
    by (simp add: hello_body_def)
  from reply_returned_unless_preview_update_throws[OF v t, of NonError] r show ?thesis
    by (simp add: hello_body_def new_world_def new_ChatSessions_def summaries_def
        env_lookups_down_def amb_up_def io_up_def)
qed

end
